theory Spec2Isabelle
  imports Main
begin

section \<open>Common data\<close>

text \<open>
  JavaScript strings are modelled as \<^typ>\<open>string\<close>: the list of the bytes of the string
  in UTF-8 (one \<^typ>\<open>char\<close> for every ASCII character). A \<open>vscode.Uri\<close> is represented by
  the string its \<open>toString()\<close> gives. An exception is a value of \<open>error\<close>, and code
  that can throw returns \<open>error + 'a\<close> with \<open>Inl\<close> for the exception.
\<close>

type_synonym uri = string

datatype error = TypeError | URIError | SyntaxError | Thrown string

text \<open>\<open>String.prototype.startsWith\<close>.\<close>

fun startsWith :: "string \<Rightarrow> string \<Rightarrow> bool" where
  "startsWith s [] = True"
| "startsWith [] (p # ps) = False"
| "startsWith (c # s) (p # ps) = (c = p \<and> startsWith s ps)"

section \<open>scm.ts: the source-control bridge\<close>

subsection \<open>The collaborators\<close>

text \<open>
  The git extension's API (\<open>./git\<close>): a \<open>Ref\<close> has an optional \<open>name\<close>, a repository has a
  \<open>rootUri\<close> and a \<open>state.HEAD\<close> that may be undefined. \<open>API.getRepository\<close> answers
  \<open>Repository | null\<close>; it is the git extension's own lookup, so the API value carries it as
  a finite table from folder URIs to repositories (\<open>repositoryOf\<close>), read with \<open>map_of\<close>.
\<close>

record ref =
  name :: "string option"

record repository =
  rootUri :: uri
  HEAD :: "ref option"

datatype api_state = Uninitialized | Initialized

record git_api =
  apiState :: api_state
  repositories :: "repository list"
  repositoryOf :: "(uri \<times> repository) list"

definition getRepository :: "git_api \<Rightarrow> uri \<Rightarrow> repository option" where
  "getRepository api u = map_of (repositoryOf api) u"

text \<open>\<open>repository.state.HEAD?.name\<close>: undefined when HEAD is, else the (optional) name.\<close>

definition headName :: "repository \<Rightarrow> string option" where
  "headName r = (case HEAD r of None \<Rightarrow> None | Some h \<Rightarrow> name h)"

text \<open>
  The state the extension acts on. For the bridge: the output channel of
  \<open>logToSonarLintOutput\<close> (unset before activation), the notifications sent through the
  language client, and the event subscriptions, which are \<open>vscode.Disposable\<close>s
  (\<open>disposed\<close> records, in order, every \<open>dispose()\<close> call made on one). For the start of the
  language server: what has happened so far (\<open>occurrences\<close>), the port
  \<open>server.address()\<close> reports once the server socket is active, and the promise of the
  stream.
\<close>

datatype disposable = OpenRepositorySubscription | RepositoryChangeSubscription uri

record error_info =
  errMessage :: string
  errLabel :: "string option"
  errCommand :: "string option"
  errCommandParam :: "string option"

datatype occurrence =
    ErrorMessageShown string "string option"
  | CommandExecuted string "string option"
  | ServerCreated
  | ListenCalled nat
  | ListenerActive nat
  | ChildSpawned string "string list"
  | ConnectionAccepted nat
  | StreamResolved nat

datatype promise = Pending | Fulfilled nat | Rejected error_info

record world =
  sonarlintOutput :: "string list option"
  sentBranchNames :: "(uri \<times> string option) list"
  disposed :: "disposable list"
  occurrences :: "occurrence list"
  serverAddress :: "nat option"
  stream :: promise

definition logToSonarLintOutput :: "string \<Rightarrow> world \<Rightarrow> world" where
  "logToSonarLintOutput message w =
     (case sonarlintOutput w of
        None \<Rightarrow> w
      | Some ls \<Rightarrow> w\<lparr>sonarlintOutput := Some (ls @ [message])\<rparr>)"

text \<open>
  Modelled from the spec: \<open>SonarLintExtendedLanguageClient.didLocalBranchNameChange\<close> lives
  in \<open>./client\<close>, which is not among the sources. The spec describes it as the
  client-to-server notification for branch-name changes (folder reference, branch name or
  absent); each call is recorded as one sent notification.
\<close>

definition didLocalBranchNameChange :: "uri \<Rightarrow> string option \<Rightarrow> world \<Rightarrow> world" where
  "didLocalBranchNameChange folderUri branchName w =
     w\<lparr>sentBranchNames := sentBranchNames w @ [(folderUri, branchName)]\<rparr>"

text \<open>A template literal prints an undefined value as \<open>undefined\<close>.\<close>

definition showOptional :: "string option \<Rightarrow> string" where
  "showOptional v = (case v of None \<Rightarrow> ''undefined'' | Some s \<Rightarrow> s)"

subsection \<open>The two variants\<close>

record git_scm =
  listeners :: "disposable list"
  stateListenerInstalled :: bool

datatype scm = NoopScm | GitScm git_scm

text \<open>
  \<open>subscribeToRepositoryChanges\<close> pushes one subscription to the repository's
  \<open>state.onDidChange\<close>. Its callback is \<open>repositoryStateChanged\<close>: it runs over
  \<open>vscode.workspace.workspaceFolders\<close>, which is undefined when no workspace is open, and
  \<open>undefined.forEach\<close> is a TypeError.
\<close>

definition subscribeToRepositoryChanges :: "repository \<Rightarrow> git_scm \<Rightarrow> git_scm" where
  "subscribeToRepositoryChanges r s =
     s\<lparr>listeners := listeners s @ [RepositoryChangeSubscription (rootUri r)]\<rparr>"






text \<open>
  \<open>subscribeToAllRepositoryChanges\<close>: subscribe to every known repository, then run over the
  workspace folders. \<open>folderBranchName\<close> is
  \<open>this.gitApi.getRepository(folder.uri)?.state.HEAD?.name\<close>.
\<close>

definition folderBranchName :: "git_api \<Rightarrow> uri \<Rightarrow> string option" where
  "folderBranchName api folder =
     (case getRepository api folder of None \<Rightarrow> None | Some r \<Rightarrow> headName r)"

fun initialBranchLoop :: "git_api \<Rightarrow> uri list \<Rightarrow> world \<Rightarrow> world" where
  "initialBranchLoop api [] w = w"
| "initialBranchLoop api (folder # folders) w =
     (let branchName = folderBranchName api folder;
          w1 = logToSonarLintOutput
                 (''Initializing '' @ folder @ '' on branch '' @ showOptional branchName) w;
          w2 = didLocalBranchNameChange folder branchName w1
      in initialBranchLoop api folders w2)"

definition subscribeToAllRepositoryChanges ::
  "git_api \<Rightarrow> uri list option \<Rightarrow> git_scm \<Rightarrow> world \<Rightarrow> git_scm \<times> (error + world)" where
  "subscribeToAllRepositoryChanges api workspaceFolders s w =
     (let s1 = fold subscribeToRepositoryChanges (repositories api) s
      in case workspaceFolders of
           None \<Rightarrow> (s1, Inl TypeError)
         | Some folders \<Rightarrow> (s1, Inr (initialBranchLoop api folders w)))"

text \<open>
  The constructor of \<open>GitScm\<close>. \<open>initScm\<close> hands it
  \<open>getExtension(...).exports?.getAPI(1)\<close>, which is undefined when the git extension has no
  exports; \<open>gitApi.onDidOpenRepository\<close> is then a TypeError. An exception leaves no object.
\<close>

definition newGitScm :: "git_api option \<Rightarrow> uri list option \<Rightarrow> world \<Rightarrow> error + (git_scm \<times> world)" where
  "newGitScm gitApi workspaceFolders w =
     (case gitApi of
        None \<Rightarrow> Inl TypeError
      | Some api \<Rightarrow>
          (let s = \<lparr>listeners = [OpenRepositorySubscription], stateListenerInstalled = False\<rparr>
           in if apiState api = Initialized
              then (case subscribeToAllRepositoryChanges api workspaceFolders s w of
                      (s', Inl e) \<Rightarrow> Inl e
                    | (s', Inr w') \<Rightarrow> Inr (s', w'))
              else Inr (s\<lparr>stateListenerInstalled := True\<rparr>, w)))"


definition apiStateChanged ::
  "git_api \<Rightarrow> api_state \<Rightarrow> uri list option \<Rightarrow> git_scm \<Rightarrow> world \<Rightarrow> git_scm \<times> (error + world)" where
  "apiStateChanged api st workspaceFolders s w =
     (if st = Initialized
      then subscribeToAllRepositoryChanges api workspaceFolders s w
      else (s, Inr w))"

text \<open>
  \<open>initScm\<close>: \<open>getExtension\<close> answers undefined when the extension is not there (reading
  \<open>exports\<close> of it throws), \<open>exports\<close> may be undefined, and \<open>getAPI\<close> gives the API or throws.
  Any exception of the \<open>try\<close> block is logged and gives the no-op variant. The log line
  holds \<open>${e}\<close>, the text the JavaScript engine gives for the exception (its name and its
  message); \<open>describe\<close> is that rendering.
\<close>

definition initScm ::
  "(error \<Rightarrow> string) \<Rightarrow> (error + git_api) option option \<Rightarrow> uri list option \<Rightarrow> world \<Rightarrow>
     scm \<times> world" where
  "initScm describe gitExtension workspaceFolders w =
     (case (case gitExtension of
              None \<Rightarrow> Inl TypeError
            | Some None \<Rightarrow> newGitScm None workspaceFolders w
            | Some (Some (Inl e)) \<Rightarrow> Inl e
            | Some (Some (Inr gitApi)) \<Rightarrow> newGitScm (Some gitApi) workspaceFolders w) of
        Inr (s, w') \<Rightarrow> (GitScm s, w')
      | Inl e \<Rightarrow>
          (NoopScm,
           logToSonarLintOutput
             (''Exception occurred while initializing the Git API: '' @ describe e) w))"

text \<open>\<open>getBranchForFolder\<close> of both variants (null and undefined are both \<open>None\<close>).\<close>

definition getBranchForFolder :: "scm \<Rightarrow> git_api \<Rightarrow> uri \<Rightarrow> error + string option" where
  "getBranchForFolder b api folderUri =
     (case b of
        NoopScm \<Rightarrow> Inr None
      | GitScm s \<Rightarrow>
          (case getRepository api folderUri of
             None \<Rightarrow> Inl TypeError
           | Some r \<Rightarrow> Inr (headName r)))"

text \<open>
  \<open>dispose\<close>: \<open>throwing d\<close> says whether \<open>d.dispose()\<close> throws. A call gives the world
  after it and the exception, if any; the \<open>catch\<close> of the loop body drops the exception
  and the \<open>forEach\<close> goes on.
\<close>

definition disposeListener ::
  "(disposable \<Rightarrow> bool) \<Rightarrow> disposable \<Rightarrow> world \<Rightarrow> world \<times> error option" where
  "disposeListener throwing d w =
     (w\<lparr>disposed := disposed w @ [d]\<rparr>,
      if throwing d then Some (Thrown ''dispose'') else None)"

fun disposeLoop :: "(disposable \<Rightarrow> bool) \<Rightarrow> disposable list \<Rightarrow> world \<Rightarrow> error + world" where
  "disposeLoop throwing [] w = Inr w"
| "disposeLoop throwing (d # ds) w =
     (case disposeListener throwing d w of
        (w', None) \<Rightarrow> disposeLoop throwing ds w'
      | (w', Some e) \<Rightarrow> disposeLoop throwing ds w')"

definition dispose :: "(disposable \<Rightarrow> bool) \<Rightarrow> scm \<Rightarrow> world \<Rightarrow> error + world" where
  "dispose throwing b w =
     (case b of
        NoopScm \<Rightarrow> Inr w
      | GitScm s \<Rightarrow> disposeLoop throwing (listeners s) w)"

section \<open>The platform: \<open>path\<close> and the URI functions\<close>

subsection \<open>The \<open>path\<close> module\<close>

text \<open>
  \<open>Path\<close> is Node's \<open>path\<close> module, whose functions depend on the platform (the win32 flavour
  knows drive letters and both separators). The functions of the extension take the module
  as a value of \<open>path_module\<close>, so every statement about them holds for either flavour.
\<close>

record path_module =
  resolve :: "string list \<Rightarrow> string"
  join :: "string list \<Rightarrow> string"
  dirname :: "string \<Rightarrow> string"
  delimiter :: char

text \<open>
  \<open>path.posix\<close>, for running the functions on concrete inputs. \<open>normalizeSegments\<close> is the
  library's \<open>normalizeString\<close> on the segments between slashes: empty segments and \<open>.\<close>
  vanish, \<open>..\<close> removes the segment before it, and above the top it is kept only where
  \<open>allowAboveRoot\<close> holds. The working directory \<open>cwd\<close> is an absolute path, as
  \<open>process.cwd()\<close> is.
\<close>

fun splitOn :: "char \<Rightarrow> string \<Rightarrow> string list" where
  "splitOn d [] = [[]]"
| "splitOn d (c # cs) =
     (if c = d then [] # splitOn d cs
      else (case splitOn d cs of
              [] \<Rightarrow> [[c]]
            | w # ws \<Rightarrow> (c # w) # ws))"

fun joinWith :: "string \<Rightarrow> string list \<Rightarrow> string" where
  "joinWith sep [] = []"
| "joinWith sep [w] = w"
| "joinWith sep (w # v # ws) = w @ sep @ joinWith sep (v # ws)"

fun normalizeSegments :: "bool \<Rightarrow> string list \<Rightarrow> string list \<Rightarrow> string list" where
  "normalizeSegments allowAboveRoot acc [] = rev acc"
| "normalizeSegments allowAboveRoot acc (seg # segs) =
     (if seg = [] \<or> seg = ''.'' then normalizeSegments allowAboveRoot acc segs
      else if seg = ''..'' then
        (case acc of
           [] \<Rightarrow> normalizeSegments allowAboveRoot (if allowAboveRoot then [''..''] else []) segs
         | seg1 # below \<Rightarrow>
             if seg1 = ''..'' then normalizeSegments allowAboveRoot (''..'' # acc) segs
             else normalizeSegments allowAboveRoot below segs)
      else normalizeSegments allowAboveRoot (seg # acc) segs)"

definition normalizeString :: "string \<Rightarrow> bool \<Rightarrow> string" where
  "normalizeString p allowAboveRoot =
     joinWith ''/'' (normalizeSegments allowAboveRoot [] (splitOn CHR ''/'' p))"

definition isAbsolute :: "string \<Rightarrow> bool" where
  "isAbsolute p = (take 1 p = ''/'')"

fun resolveJoin :: "string list \<Rightarrow> string \<Rightarrow> string" where
  "resolveJoin [] resolvedPath = resolvedPath"
| "resolveJoin (p # ps) resolvedPath =
     (if p = [] then resolveJoin ps resolvedPath
      else if isAbsolute p then p @ ''/'' @ resolvedPath
      else resolveJoin ps (p @ ''/'' @ resolvedPath))"

definition posixResolve :: "string \<Rightarrow> string list \<Rightarrow> string" where
  "posixResolve cwd args =
     (let resolvedPath = resolveJoin (rev args @ [cwd]) [];
          resolvedAbsolute = isAbsolute resolvedPath;
          normalized = normalizeString resolvedPath (\<not> resolvedAbsolute)
      in if resolvedAbsolute then ''/'' @ normalized
         else if normalized \<noteq> [] then normalized else ''.'')"

definition posixNormalize :: "string \<Rightarrow> string" where
  "posixNormalize p =
     (if p = [] then ''.''
      else let absolute = isAbsolute p;
               trailingSeparator = (last p = CHR ''/'');
               n = normalizeString p (\<not> absolute)
           in if n = [] then (if absolute then ''/'' else if trailingSeparator then ''./'' else ''.'')
              else (if absolute then ''/'' else []) @ n @ (if trailingSeparator then ''/'' else []))"

definition posixJoin :: "string list \<Rightarrow> string" where
  "posixJoin args =
     (case filter (\<lambda>a. a \<noteq> []) args of
        [] \<Rightarrow> ''.''
      | parts \<Rightarrow> posixNormalize (joinWith ''/'' parts))"

text \<open>
  \<open>path.posix.dirname\<close>: the text before the last slash that is followed by a name, trailing
  slashes apart.
\<close>

definition posixDirname :: "string \<Rightarrow> string" where
  "posixDirname p =
     (if p = [] then ''.''
      else let hasRoot = isAbsolute p;
               body = rev (dropWhile (\<lambda>c. c = CHR ''/'') (rev (tl p)));
               parent = rev (drop 1 (dropWhile (\<lambda>c. c \<noteq> CHR ''/'') (rev body)))
           in if CHR ''/'' \<notin> set body then (if hasRoot then ''/'' else ''.'')
              else if hasRoot \<and> parent = [] then ''//''
              else hd p # parent)"

definition posixPath :: "string \<Rightarrow> path_module" where
  "posixPath cwd =
     \<lparr>resolve = posixResolve cwd, join = posixJoin, dirname = posixDirname,
      delimiter = CHR '':''\<rparr>"

subsection \<open>\<open>encodeURI\<close> and \<open>decodeURI\<close>\<close>

text \<open>
  \<open>encodeURI\<close> leaves the reserved characters \<open>; / ? : @ & = + $ ,\<close>, the unescaped ones
  (letters, digits, \<open>- _ . ! ~ * ' ( )\<close>) and \<open>#\<close> as they are, and writes every other
  character as the bytes of its UTF-8 encoding, each byte as \<open>%\<close> and two upper-case
  hexadecimal digits. On the UTF-8 bytes of the string that is a map over the bytes. (A
  string with a lone surrogate, on which \<open>encodeURI\<close> throws, has no UTF-8 encoding and is
  not a value of the model.)
\<close>

definition backslash :: char where
  "backslash = CHR 0x5C"

definition dquote :: char where
  "dquote = CHR 0x22"

definition isAlphaNum :: "char \<Rightarrow> bool" where
  "isAlphaNum c =
     (let n = (of_char c :: nat)
      in (65 \<le> n \<and> n \<le> 90) \<or> (97 \<le> n \<and> n \<le> 122) \<or> (48 \<le> n \<and> n \<le> 57))"

definition uriReserved :: "char \<Rightarrow> bool" where
  "uriReserved c = (c \<in> set '';/?:@&=+$,'')"

definition uriUnescaped :: "char \<Rightarrow> bool" where
  "uriUnescaped c = (isAlphaNum c \<or> c \<in> set ''-_.!~*()'' \<or> c = CHR 0x27)"

definition hexDigit :: "nat \<Rightarrow> char" where
  "hexDigit n = ''0123456789ABCDEF'' ! (n mod 16)"

definition hexValue :: "char \<Rightarrow> nat option" where
  "hexValue c =
     (let n = (of_char c :: nat)
      in if 48 \<le> n \<and> n \<le> 57 then Some (n - 48)
         else if 65 \<le> n \<and> n \<le> 70 then Some (n - 55)
         else if 97 \<le> n \<and> n \<le> 102 then Some (n - 87)
         else None)"

definition encodeURIChar :: "char \<Rightarrow> string" where
  "encodeURIChar c =
     (if uriReserved c \<or> uriUnescaped c \<or> c = CHR ''#'' then [c]
      else [CHR ''%'', hexDigit (of_char c div 16), hexDigit (of_char c mod 16)])"

definition encodeURI :: "string \<Rightarrow> string" where
  "encodeURI s = concat (map encodeURIChar s)"

text \<open>
  \<open>decodeURI\<close> reads each \<open>%XX\<close> back into its byte, except that an escape of a reserved
  character or of \<open>#\<close> stays as written; a \<open>%\<close> without two hexadecimal digits is a
  URIError. (The check that escaped bytes from 0x80 on form well-formed UTF-8 is left out:
  the escapes \<open>encodeURI\<close> writes always do.)
\<close>

fun decodeURI :: "string \<Rightarrow> error + string" where
  "decodeURI [] = Inr []"
| "decodeURI (c # cs) =
     (if c = CHR ''%'' then
        (case cs of
           h # l # rest \<Rightarrow>
             (case (hexValue h, hexValue l) of
                (Some a, Some b) \<Rightarrow>
                  (case decodeURI rest of
                     Inl e \<Rightarrow> Inl e
                   | Inr r \<Rightarrow>
                       (let decoded = char_of (16 * a + b)
                        in if uriReserved decoded \<or> decoded = CHR ''#''
                           then Inr (c # h # l # r) else Inr (decoded # r)))
              | _ \<Rightarrow> Inl URIError)
         | _ \<Rightarrow> Inl URIError)
      else (case decodeURI cs of Inl e \<Rightarrow> Inl e | Inr r \<Rightarrow> Inr (c # r)))"

section \<open>extension.ts: starting the language server\<close>

subsection \<open>\<open>toUrl\<close>\<close>

text \<open>
  \<open>replaceBackslashes\<close> is \<open>.replace(/\\/g, '/')\<close>. \<open>pathName[0] !== '/'\<close> also holds of the
  empty string, whose first character is undefined.
\<close>

definition replaceBackslashes :: "string \<Rightarrow> string" where
  "replaceBackslashes s = map (\<lambda>c. if c = backslash then CHR ''/'' else c) s"

definition toUrl :: "path_module \<Rightarrow> string \<Rightarrow> string" where
  "toUrl Path filePath =
     (let pathName = replaceBackslashes (resolve Path [filePath]);
          pathName = (if take 1 pathName \<noteq> ''/'' then ''/'' @ pathName else pathName)
      in encodeURI (''file://'' @ pathName))"

subsection \<open>\<open>parseVMargs\<close>\<close>

text \<open>
  \<open>vmargsLine.match(/(?:[^\s"]+|"[^"]*")+/g)\<close>. The class \<open>\s\<close> holds the white space and
  line terminator characters of JavaScript: tab, line feed, vertical tab, form feed,
  carriage return, space, and U+00A0, U+1680, U+2000 to U+200A, U+2028, U+2029, U+202F,
  U+205F, U+3000, U+FEFF. \<open>spaceLength s\<close> is the number of bytes the UTF-8 encoding of such
  a character takes at the start of \<open>s\<close>, and 0 when \<open>s\<close> does not start with one. (The
  first byte of each of these encodings is never a later byte of another character, so the
  test can be made at every byte.)

  One round of the group is \<open>groupPiece\<close>: the longest run of characters that are neither
  white space nor a double quote (\<open>plainRun\<close>), or else a double quote, characters other than
  it, and the closing double quote. \<open>matchGroups\<close> is the greedy repetition from the start
  of its argument: it gives the text matched and what is left. \<open>matchAll\<close> is the \<open>g\<close> flag:
  where no round matches (at a white space character or at a double quote that is not
  closed) the search moves one character on, after a match it goes on behind it.
\<close>

definition spaceLength :: "string \<Rightarrow> nat" where
  "spaceLength s =
     (case map (of_char :: char \<Rightarrow> nat) (take 3 s) of
        [] \<Rightarrow> 0
      | a # bs \<Rightarrow>
          if (9 \<le> a \<and> a \<le> 13) \<or> a = 32 then 1
          else if a = 0xC2 \<and> take 1 bs = [0xA0] then 2
          else if a # bs \<in> set [[0xE1, 0x9A, 0x80], [0xE2, 0x80, 0xA8], [0xE2, 0x80, 0xA9],
                                   [0xE2, 0x80, 0xAF], [0xE2, 0x81, 0x9F], [0xE3, 0x80, 0x80],
                                   [0xEF, 0xBB, 0xBF]] then 3
          else if a = 0xE2 \<and> length bs = 2 \<and> hd bs = 0x80 \<and> 0x80 \<le> last bs \<and> last bs \<le> 0x8A
          then 3
          else 0)"

fun plainRun :: "string \<Rightarrow> string \<times> string" where
  "plainRun [] = ([], [])"
| "plainRun (c # cs) =
     (if spaceLength (c # cs) > 0 \<or> c = dquote then ([], c # cs)
      else (case plainRun cs of (run, rest) \<Rightarrow> (c # run, rest)))"

definition quotedPiece :: "string \<Rightarrow> (string \<times> string) option" where
  "quotedPiece s =
     (case s of
        [] \<Rightarrow> None
      | c # cs \<Rightarrow>
          if c = dquote then
            (case dropWhile (\<lambda>x. x \<noteq> dquote) cs of
               [] \<Rightarrow> None
             | q # rest \<Rightarrow> Some (c # takeWhile (\<lambda>x. x \<noteq> dquote) cs @ [q], rest))
          else None)"

definition groupPiece :: "string \<Rightarrow> (string \<times> string) option" where
  "groupPiece s =
     (case plainRun s of
        (run, rest) \<Rightarrow> if run \<noteq> [] then Some (run, rest) else quotedPiece s)"

function matchGroups :: "string \<Rightarrow> string \<times> string" where
  "matchGroups s =
     (case groupPiece s of
        None \<Rightarrow> ([], s)
      | Some (piece, rest) \<Rightarrow>
          (case matchGroups rest of (further, left) \<Rightarrow> (piece @ further, left)))"
  by pat_completeness auto
termination
proof (relation "measure length")
  show "wf (measure length)" by simp
next
  fix s :: string and x piece rest
  assume g: "groupPiece s = Some x" and x: "(piece, rest) = x"
  have pr: "fst (plainRun t) @ snd (plainRun t) = t" for t
    by (induction t) (auto split: prod.splits)
  have "piece \<noteq> [] \<and> piece @ rest = s"
  proof (cases "fst (plainRun s) = []")
    case False
    then have "piece = fst (plainRun s) \<and> rest = snd (plainRun s)"
      using g x by (auto simp: groupPiece_def split: prod.splits)
    then show ?thesis using False pr [of s] by simp
  next
    case True
    then have q: "quotedPiece s = Some (piece, rest)"
      using g x by (auto simp: groupPiece_def split: prod.splits)
    then obtain c cs where s: "s = c # cs"
      by (cases s) (auto simp: quotedPiece_def)
    from q s obtain q where d: "dropWhile (\<lambda>x. x \<noteq> dquote) cs = q # rest"
      and p: "piece = c # takeWhile (\<lambda>x. x \<noteq> dquote) cs @ [q]"
      by (auto simp: quotedPiece_def split: if_splits list.splits)
    have "takeWhile (\<lambda>x. x \<noteq> dquote) cs @ dropWhile (\<lambda>x. x \<noteq> dquote) cs = cs"
      by (rule takeWhile_dropWhile_id)
    then show ?thesis using s d p by simp
  qed
  then have "length rest < length s"
    by (metis length_append length_greater_0_conv less_add_same_cancel2)
  then show "(rest, s) \<in> measure length" by simp
qed

declare matchGroups.simps [simp del]

function matchAll :: "string \<Rightarrow> string list" where
  "matchAll s =
     (if s = [] then []
      else (case matchGroups s of
              ([], left) \<Rightarrow> matchAll (drop (max 1 (spaceLength s)) s)
            | (c # m, left) \<Rightarrow> (c # m) # matchAll left))"
  by pat_completeness auto
termination
proof (relation "measure length")
  show "wf (measure length)" by simp
next
  fix s :: string and x left
  assume "s \<noteq> []"
  then show "(drop (max 1 (spaceLength s)) s, s) \<in> measure length" by (cases s) simp_all
next
  fix s :: string and x matched left c m
  assume m: "(matched, left) = matchGroups s" and ne: "matched = c # m"
  have pr: "fst (plainRun t) @ snd (plainRun t) = t" for t
    by (induction t) (auto split: prod.splits)
  have split: "fst (matchGroups t) @ snd (matchGroups t) = t" for t
  proof (induction t rule: matchGroups.induct)
    case (1 t)
    show ?case
    proof (cases "groupPiece t")
      case None
      then show ?thesis by (simp add: matchGroups.simps [of t])
    next
      case (Some pr')
      obtain piece rest where pr': "pr' = (piece, rest)" by (cases pr')
      have t: "piece @ rest = t"
      proof (cases "fst (plainRun t) = []")
        case False
        then have "piece = fst (plainRun t) \<and> rest = snd (plainRun t)"
          using Some pr' by (auto simp: groupPiece_def split: prod.splits)
        then show ?thesis using pr [of t] by simp
      next
        case True
        then have q: "quotedPiece t = Some (piece, rest)"
          using Some pr' by (auto simp: groupPiece_def split: prod.splits)
        then obtain c cs where s: "t = c # cs"
          by (cases t) (auto simp: quotedPiece_def)
        from q s obtain q where d: "dropWhile (\<lambda>x. x \<noteq> dquote) cs = q # rest"
          and p: "piece = c # takeWhile (\<lambda>x. x \<noteq> dquote) cs @ [q]"
          by (auto simp: quotedPiece_def split: if_splits list.splits)
        have "takeWhile (\<lambda>x. x \<noteq> dquote) cs @ dropWhile (\<lambda>x. x \<noteq> dquote) cs = cs"
          by (rule takeWhile_dropWhile_id)
        then show ?thesis using s d p by simp
      qed
      have ih: "fst (matchGroups rest) @ snd (matchGroups rest) = rest"
        using "1.IH" Some pr' by simp
      obtain further l where mr: "matchGroups rest = (further, l)"
        by (cases "matchGroups rest")
      have "matchGroups t = (piece @ further, l)"
        using Some pr' mr by (simp add: matchGroups.simps [of t])
      then show ?thesis using ih mr t by simp
    qed
  qed
  from split [of s] m ne have "(c # m) @ left = s"
    by (metis fst_conv snd_conv)
  then have "length left < length s" by auto
  then show "(left, s) \<in> measure length" by simp
qed

declare matchAll.simps [simp del]

text \<open>
  The two \<open>replace\<close> calls of the loop body: \<open>/(\\)?"/g\<close> with a function that keeps a match
  with the backslash and drops one without, then \<open>/(\\)"/g\<close> to a double quote.
\<close>

fun removeStandaloneQuotes :: "string \<Rightarrow> string" where
  "removeStandaloneQuotes [] = []"
| "removeStandaloneQuotes [a] = (if a = dquote then [] else [a])"
| "removeStandaloneQuotes (a # b # cs) =
     (if a = backslash \<and> b = dquote then a # b # removeStandaloneQuotes cs
      else if a = dquote then removeStandaloneQuotes (b # cs)
      else a # removeStandaloneQuotes (b # cs))"

fun unescapeQuotes :: "string \<Rightarrow> string" where
  "unescapeQuotes [] = []"
| "unescapeQuotes [a] = [a]"
| "unescapeQuotes (a # b # cs) =
     (if a = backslash \<and> b = dquote then dquote # unescapeQuotes cs
      else a # unescapeQuotes (b # cs))"

fun pushArgs :: "string list \<Rightarrow> string list \<Rightarrow> string list" where
  "pushArgs params [] = params"
| "pushArgs params (arg # vmargs) =
     (let arg1 = removeStandaloneQuotes arg;
          arg2 = unescapeQuotes arg1
      in if arg2 \<notin> set params then pushArgs (params @ [arg2]) vmargs
         else pushArgs params vmargs)"

text \<open>
  \<open>parseVMargs\<close> pushes onto \<open>params\<close> in place; the model gives the list afterwards.
  \<open>match\<close> answers null when there is no match at all.
\<close>

definition regexMatch :: "string \<Rightarrow> string list option" where
  "regexMatch s = (case matchAll s of [] \<Rightarrow> None | m # ms \<Rightarrow> Some (m # ms))"

definition parseVMargs :: "string list \<Rightarrow> string \<Rightarrow> string list" where
  "parseVMargs params vmargsLine =
     (if vmargsLine = [] then params
      else (case regexMatch vmargsLine of
              None \<Rightarrow> params
            | Some vmargs \<Rightarrow> pushArgs params vmargs))"

subsection \<open>\<open>languageServerCommand\<close>\<close>

text \<open>
  What the functions of this file read from the host: the debug flag, the settings (each
  \<open>None\<close> when not set), the file system and the process environment. \<open>mtime\<close> is
  \<open>FS.statSync(f).mtime\<close>, \<open>accessSync f\<close> says that \<open>FS.accessSync(f, R_OK | X_OK)\<close>
  returns without throwing. \<open>readFile\<close> gives what the callback of \<open>FS.readFile\<close> meets:
  an error, a text that \<open>JSON.parse\<close> rejects, or the parsed compilation database, an array
  of entries \<open>{directory, command | arguments, file}\<close> with any of the fields absent
  (\<open>entryFile\<close> is the field \<open>file\<close>).
\<close>

record compilation_entry =
  directory :: "string option"
  command :: "string option"
  arguments :: "string list option"
  entryFile :: "string option"

datatype database_file = Unreadable | Malformed | Database "compilation_entry list"

record host =
  DEBUG :: bool
  vmargsSetting :: string
  showVerboseLogs :: bool
  existsSync :: "string \<Rightarrow> bool"
  mtime :: "string \<Rightarrow> nat"
  accessSync :: "string \<Rightarrow> bool"
  readFile :: "string \<Rightarrow> database_file"
  envPATH :: "string option"
  processEnv :: "(string \<times> string) list"
  workspaceFolderOf :: "string \<Rightarrow> string option"
  buildWrapperOutputSetting :: "string option"
  buildWrapperEnvSetting :: "string list option"
  buildWrapperCompilerSetting :: "string option"
  analyzerPropertiesSetting :: "(string \<times> string) list option"

record extension_context =
  extensionPath :: string

record requirements_data =
  javaHome :: string

text \<open>A number in a template literal: its decimal digits.\<close>

fun showNat :: "nat \<Rightarrow> string" where
  "showNat n =
     (if n < 10 then [''0123456789'' ! n]
      else showNat (n div 10) @ [''0123456789'' ! (n mod 10)])"

declare showNat.simps [simp del]

definition isVerboseEnabled :: "host \<Rightarrow> bool" where
  "isVerboseEnabled h = showVerboseLogs h"

definition languageServerCommand ::
  "path_module \<Rightarrow> host \<Rightarrow> extension_context \<Rightarrow> requirements_data \<Rightarrow> nat \<Rightarrow> string \<times> string list" where
  "languageServerCommand Path h context requirements port =
     (let serverJar = resolve Path [extensionPath context, ''server'', ''sonarlint-ls.jar''];
          javaExecutablePath = resolve Path [javaHome requirements @ ''/bin/java''];
          params = (if DEBUG h
                    then [''-agentlib:jdwp=transport=dt_socket,server=y,suspend=n,address=8000'',
                          ''-Dsonarlint.telemetry.disabled=true'']
                    else []);
          params = parseVMargs params (vmargsSetting h);
          params = params @ [''-jar'', serverJar, showNat port];
          params = params @ [''-analyzers''];
          params = params @
            map (\<lambda>jar. toUrl Path (resolve Path [extensionPath context, ''analyzers'', jar]))
              [''sonarjava.jar'', ''sonarjs.jar'', ''sonarphp.jar'', ''sonarpython.jar'',
               ''sonarhtml.jar''];
          secrets = resolve Path [extensionPath context, ''analyzers'', ''sonarsecrets.jar''];
          params = (if existsSync h secrets
                    then params @ [''-extraAnalyzers'',
                           toUrl Path
                             (resolve Path [extensionPath context, ''analyzers'', ''sonarsecrets.jar''])]
                    else params)
      in (javaExecutablePath, params))"

subsection \<open>\<open>runJavaServer\<close>\<close>

text \<open>
  \<open>runJavaServer\<close> is a chain of callbacks. Its own part runs when \<open>resolveRequirements\<close>
  (of \<open>./requirements\<close>) has settled, with the outcome as argument: a failure is shown and
  rethrown, so the promise rejects and no socket is opened; otherwise the server is created
  and \<open>server.listen(0, ...)\<close> is called. \<open>errorMessageAnswered\<close> is the callback of the
  error message, \<open>serverListening\<close> the one given to \<open>listen\<close>, \<open>serverConnection\<close> the one
  given to \<open>Net.createServer\<close>. The handlers put on the child's \<open>stdout\<close> and \<open>stderr\<close> only
  write to the output channel.
\<close>

definition occurs :: "occurrence \<Rightarrow> world \<Rightarrow> world" where
  "occurs x w = w\<lparr>occurrences := occurrences w @ [x]\<rparr>"

definition runJavaServer :: "error_info + requirements_data \<Rightarrow> world \<Rightarrow> world" where
  "runJavaServer resolved w =
     (case resolved of
        Inl err \<Rightarrow> (occurs (ErrorMessageShown (errMessage err) (errLabel err)) w)\<lparr>stream := Rejected err\<rparr>
      | Inr requirements \<Rightarrow> occurs (ListenCalled 0) (occurs ServerCreated w))"

definition errorMessageAnswered :: "error_info \<Rightarrow> string option \<Rightarrow> world \<Rightarrow> world" where
  "errorMessageAnswered err selection w =
     (case (errLabel err, errCommand err) of
        (Some l, Some c) \<Rightarrow>
          if l \<noteq> [] \<and> selection = Some l \<and> c \<noteq> []
          then occurs (CommandExecuted c (errCommandParam err)) w else w
      | _ \<Rightarrow> w)"

definition serverListening ::
  "path_module \<Rightarrow> host \<Rightarrow> extension_context \<Rightarrow> requirements_data \<Rightarrow> world \<Rightarrow> error + world" where
  "serverListening Path h context requirements w =
     (case serverAddress w of
        None \<Rightarrow> Inl TypeError
      | Some port \<Rightarrow>
          (case languageServerCommand Path h context requirements port of
             (executablePath, args) \<Rightarrow>
               (let w1 = (if isVerboseEnabled h
                          then logToSonarLintOutput
                                 (''Executing '' @ executablePath @ '' '' @ joinWith '' '' args) w
                          else w)
                in Inr (occurs (ChildSpawned executablePath args) w1))))"

definition resolveStream :: "nat \<Rightarrow> world \<Rightarrow> world" where
  "resolveStream socket w =
     (occurs (StreamResolved socket) w)
       \<lparr>stream := (if stream w = Pending then Fulfilled socket else stream w)\<rparr>"

definition serverConnection :: "host \<Rightarrow> nat \<Rightarrow> world \<Rightarrow> error + world" where
  "serverConnection h socket w =
     (if isVerboseEnabled h then
        (case serverAddress w of
           None \<Rightarrow> Inl TypeError
         | Some port \<Rightarrow>
             Inr (resolveStream socket
                    (logToSonarLintOutput
                       (''Child process connected on port '' @ showNat port) w)))
      else Inr (resolveStream socket w))"

text \<open>
  The events of the server socket, as Node delivers them: the callback of \<open>listen\<close> runs
  once, when the socket asked for is active and has its address (with port 0 the operating
  system picks the port); the connection callback runs for a connection accepted on the
  active socket. \<open>deliver\<close> is \<open>None\<close> for an event that cannot happen in that state; \<open>run\<close>
  delivers a list of events in order and stops at an exception.
\<close>

datatype event = Listening nat | Connection nat

definition listenRequested :: "nat \<Rightarrow> world \<Rightarrow> bool" where
  "listenRequested p w =
     (serverAddress w = None \<and>
      (ListenCalled 0 \<in> set (occurrences w) \<or> ListenCalled p \<in> set (occurrences w)))"

definition deliver ::
  "path_module \<Rightarrow> host \<Rightarrow> extension_context \<Rightarrow> requirements_data \<Rightarrow> event \<Rightarrow> world \<Rightarrow>
     (error + world) option" where
  "deliver Path h context requirements e w =
     (case e of
        Listening p \<Rightarrow>
          if listenRequested p w
          then Some (serverListening Path h context requirements
                       (occurs (ListenerActive p) (w\<lparr>serverAddress := Some p\<rparr>)))
          else None
      | Connection socket \<Rightarrow>
          if serverAddress w \<noteq> None
          then Some (serverConnection h socket (occurs (ConnectionAccepted socket) w))
          else None)"

fun run ::
  "path_module \<Rightarrow> host \<Rightarrow> extension_context \<Rightarrow> requirements_data \<Rightarrow> event list \<Rightarrow> world \<Rightarrow>
     (error + world) option" where
  "run Path h context requirements [] w = Some (Inr w)"
| "run Path h context requirements (e # es) w =
     (case deliver Path h context requirements e w of
        None \<Rightarrow> None
      | Some (Inl err) \<Rightarrow> Some (Inl err)
      | Some (Inr w') \<Rightarrow> run Path h context requirements es w')"

definition startWorld :: world where
  "startWorld =
     \<lparr>sonarlintOutput = Some [], sentBranchNames = [], disposed = [], occurrences = [],
      serverAddress = None, stream = Pending\<rparr>"

section \<open>extension.ts: the ignore check\<close>

text \<open>
  \<open>performIsIgnoredCheck\<close> is an async function: \<open>Inl\<close> is a rejected promise. The host side
  is \<open>VSCode.Uri.parse\<close> (it throws on a malformed URI), \<open>getWorkspaceFolder\<close> (the folder's
  \<open>uri.fsPath\<close>, or undefined), \<open>asRelativePath\<close>, and the git extension:
  \<open>getExtension('vscode.git')\<close> is undefined when the extension is missing, its \<open>exports\<close>
  may be undefined, and \<open>getAPI(1).git.path\<close> gives the path of git or throws. The first
  component of the result lists the calls made to the git side, \<open>scmCheck\<close> included.
\<close>

datatype git_call = GetExtension | GetAPI | ScmCheck string string

record ignore_host =
  parseUri :: "string \<Rightarrow> error + uri"
  getWorkspaceFolder :: "uri \<Rightarrow> string option"
  asRelativePath :: "uri \<Rightarrow> string"
  gitExtension :: "(error + string) option option"

definition performIsIgnoredCheck ::
  "ignore_host \<Rightarrow> (string \<Rightarrow> string \<Rightarrow> error + bool) \<Rightarrow> string \<Rightarrow> git_call list \<times> (error + bool)" where
  "performIsIgnoredCheck h scmCheck fileUri =
     (case parseUri h fileUri of
        Inl e \<Rightarrow> ([], Inl e)
      | Inr parsedFileUri \<Rightarrow>
          (case getWorkspaceFolder h parsedFileUri of
             None \<Rightarrow> ([], Inr False)
           | Some workspaceFolderPath \<Rightarrow>
               (let relativeFileUri = asRelativePath h parsedFileUri
                in case gitExtension h of
                     None \<Rightarrow> ([GetExtension], Inl TypeError)
                   | Some None \<Rightarrow> ([GetExtension], Inr False)
                   | Some (Some api) \<Rightarrow>
                       (case api of
                          Inl e \<Rightarrow> ([GetExtension, GetAPI], Inr False)
                        | Inr gitPath \<Rightarrow>
                            (let gitCommand = [dquote] @ gitPath @ [dquote] @ '' check-ignore ''
                                                @ relativeFileUri
                             in ([GetExtension, GetAPI, ScmCheck workspaceFolderPath gitCommand],
                                 case scmCheck workspaceFolderPath gitCommand of
                                   Inl e \<Rightarrow> Inr False
                                 | Inr fileIgnoredForFolder \<Rightarrow> Inr fileIgnoredForFolder))))))"

section \<open>extension.ts: converting a compilation database\<close>

text \<open>
  The build-wrapper dump \<open>{version, captures: [{compiler, cwd, executable, cmd, env}]}\<close>.
  A field that is undefined (\<open>cwd\<close> of an entry without \<open>directory\<close>, \<open>executable\<close> of an
  empty argument list) is \<open>None\<close>; \<open>JSON.stringify\<close> leaves it out.
\<close>

record capture =
  compiler :: string
  cwd :: "string option"
  executable :: "string option"
  cmd :: "string list"
  env :: "string list"

record build_wrapper_dump =
  version :: nat
  captures :: "capture list"

text \<open>
  What the conversion does to the outside: the settings update, \<open>FS.mkdir\<close> and
  \<open>FS.writeFile\<close> (with the dump that \<open>JSON.stringify\<close> turns into the text written).
\<close>

datatype effect =
    ConfigurationUpdated "(string \<times> string) list"
  | DirectoryMade string
  | FileWritten string build_wrapper_dump

text \<open>
  \<open>s.replace(pattern, replacement)\<close> with a string pattern replaces the first occurrence
  (the replacement is put in as it is; the \<open>$\<close> patterns of a replacement text are not
  modelled). \<open>includesText\<close> is \<open>String.prototype.includes\<close>. An object of string properties is
  an association list; \<open>setProperty\<close> is the assignment \<open>o[k] = v\<close>, and a property is truthy
  when it is there and not the empty string.
\<close>

fun replaceFirst :: "string \<Rightarrow> string \<Rightarrow> string \<Rightarrow> string" where
  "replaceFirst pat rep [] = (if pat = [] then rep else [])"
| "replaceFirst pat rep (c # cs) =
     (if startsWith (c # cs) pat then rep @ drop (length pat) (c # cs)
      else c # replaceFirst pat rep cs)"

fun includesText :: "string \<Rightarrow> string \<Rightarrow> bool" where
  "includesText [] pat = (pat = [])"
| "includesText (c # cs) pat = (startsWith (c # cs) pat \<or> includesText cs pat)"

fun setProperty :: "string \<Rightarrow> string \<Rightarrow> (string \<times> string) list \<Rightarrow> (string \<times> string) list" where
  "setProperty k v [] = [(k, v)]"
| "setProperty k v ((k', v') # ps) =
     (if k' = k then (k, v) # ps else (k', v') # setProperty k v ps)"

definition truthy :: "string option \<Rightarrow> bool" where
  "truthy v = (case v of None \<Rightarrow> False | Some s \<Rightarrow> s \<noteq> [])"

definition workspaceFolderVariable :: string where
  "workspaceFolderVariable = ''${workspaceFolder}''"

definition buildWrapperOutputKey :: string where
  "buildWrapperOutputKey = ''sonar.cfamily.build-wrapper-output''"

definition cachePathKey :: string where
  "cachePathKey = ''sonar.cfamily.cache.path''"

text \<open>
  Lines 809 to 832: the environment of the captures. The configured one if it is not empty;
  else the first segment of \<open>PATH\<close> under which the compiler can be read and executed; else
  the whole environment of the process. \<open>process.env.PATH\<close> may be undefined, and
  \<open>undefined.split\<close> throws.
\<close>

fun findCompilerPath :: "path_module \<Rightarrow> host \<Rightarrow> string \<Rightarrow> string list \<Rightarrow> string option" where
  "findCompilerPath Path h buildWrapperCompiler [] = None"
| "findCompilerPath Path h buildWrapperCompiler (segment # pathSegments) =
     (if accessSync h (join Path [segment, buildWrapperCompiler])
      then Some (joinWith ''='' [''PATH'', segment])
      else findCompilerPath Path h buildWrapperCompiler pathSegments)"

definition captureEnvironment ::
  "path_module \<Rightarrow> host \<Rightarrow> string list \<Rightarrow> string \<Rightarrow> error + string list" where
  "captureEnvironment Path h buildWrapperEnv buildWrapperCompiler =
     (if length buildWrapperEnv > 0 then Inr buildWrapperEnv
      else (case envPATH h of
              None \<Rightarrow> Inl TypeError
            | Some path \<Rightarrow>
                (case findCompilerPath Path h buildWrapperCompiler (splitOn (delimiter Path) path) of
                   Some compilerPathProperty \<Rightarrow> Inr [compilerPathProperty]
                 | None \<Rightarrow> Inr (map (\<lambda>(key, v). joinWith ''='' [key, v]) (processEnv h)))))"

text \<open>Lines 834 to 850: the three rewritings of the analyzer properties, and whether any happened.\<close>

definition expandAnalyzerProperties ::
  "string \<Rightarrow> string \<Rightarrow> (string \<times> string) list \<Rightarrow> (string \<times> string) list \<times> bool" where
  "expandAnalyzerProperties buildWrapperOutput folderPath analyzerProperties =
     (let (p1, u1) =
            (if \<not> truthy (map_of analyzerProperties buildWrapperOutputKey) \<and> buildWrapperOutput \<noteq> []
             then (setProperty buildWrapperOutputKey
                     (replaceFirst workspaceFolderVariable folderPath buildWrapperOutput)
                     analyzerProperties, True)
             else (analyzerProperties, False));
          (p2, u2) =
            (case map_of p1 buildWrapperOutputKey of
               Some v \<Rightarrow>
                 if v \<noteq> [] \<and> includesText v workspaceFolderVariable
                 then (setProperty buildWrapperOutputKey
                         (replaceFirst workspaceFolderVariable folderPath v) p1, True)
                 else (p1, u1)
             | None \<Rightarrow> (p1, u1));
          (p3, u3) =
            (case map_of p2 cachePathKey of
               Some v \<Rightarrow>
                 if v \<noteq> [] \<and> includesText v workspaceFolderVariable
                 then (setProperty cachePathKey
                         (replaceFirst workspaceFolderVariable folderPath v) p2, True)
                 else (p2, u2)
             | None \<Rightarrow> (p2, u2))
      in (p3, u3))"

text \<open>
  The loop of lines 869 to 880. \<open>split\<close> is \<open>shlex.split\<close> of the npm package \<open>shlex\<close>, which
  splits a command line into words as a shell does and throws on an unfinished quotation.
  \<open>compilationEntry?.arguments || shlex.split(compilationEntry.command)\<close> takes the
  arguments when they are there (an array is truthy, also the empty one); otherwise it
  splits the command, and \<open>shlex.split(undefined)\<close> throws.
\<close>

definition entryArguments ::
  "(string \<Rightarrow> error + string list) \<Rightarrow> compilation_entry \<Rightarrow> error + string list" where
  "entryArguments split compilationEntry =
     (case arguments compilationEntry of
        Some args \<Rightarrow> Inr args
      | None \<Rightarrow>
          (case command compilationEntry of
             None \<Rightarrow> Inl TypeError
           | Some c \<Rightarrow> split c))"

fun captureEntries ::
  "(string \<Rightarrow> error + string list) \<Rightarrow> string \<Rightarrow> string list \<Rightarrow> compilation_entry list \<Rightarrow>
     capture list \<Rightarrow> error + capture list" where
  "captureEntries split buildWrapperCompiler environment [] done = Inr done"
| "captureEntries split buildWrapperCompiler environment (compilationEntry # entries) done =
     (case entryArguments split compilationEntry of
        Inl e \<Rightarrow> Inl e
      | Inr args \<Rightarrow>
          captureEntries split buildWrapperCompiler environment entries
            (done @ [\<lparr>compiler = buildWrapperCompiler,
                      cwd = directory compilationEntry,
                      executable = (case args of [] \<Rightarrow> None | a # _ \<Rightarrow> Some a),
                      cmd = args,
                      env = environment\<rparr>]))"

text \<open>
  \<open>convertCompilationDB\<close>, for the file at \<open>compilationDatabaseFile\<close>. The result is what was
  done to the outside, in order, and the exception that ended the run, if any (thrown by
  the async function itself or inside the callback of \<open>readFile\<close>).

  \<open>prepareConversion\<close> is lines 802 to 856: the workspace folder (undefined for a file
  outside the workspace, and reading \<open>uri\<close> of it throws), the settings, the environment and
  the analyzer properties. It gives the settings update made, if any, and then either the
  exception or the path of the dump file, the compiler and the environment.
\<close>

definition prepareConversion ::
  "path_module \<Rightarrow> host \<Rightarrow> string \<Rightarrow> effect list \<times> (error + string \<times> string \<times> string list)" where
  "prepareConversion Path h compilationDatabaseFile =
     (case workspaceFolderOf h compilationDatabaseFile of
        None \<Rightarrow> ([], Inl TypeError)
      | Some folderPath \<Rightarrow>
         (let defaultBuildWrapperOutput = join Path [folderPath, ''cfamily-compilation-database''];
              buildWrapperOutput =
                (case buildWrapperOutputSetting h of
                   None \<Rightarrow> defaultBuildWrapperOutput | Some v \<Rightarrow> v);
              buildWrapperEnv = (case buildWrapperEnvSetting h of None \<Rightarrow> [] | Some v \<Rightarrow> v);
              buildWrapperCompiler =
                (case buildWrapperCompilerSetting h of None \<Rightarrow> ''clang'' | Some v \<Rightarrow> v)
          in case captureEnvironment Path h buildWrapperEnv buildWrapperCompiler of
               Inl e \<Rightarrow> ([], Inl e)
             | Inr environment \<Rightarrow>
                (case expandAnalyzerProperties buildWrapperOutput folderPath
                        (case analyzerPropertiesSetting h of None \<Rightarrow> [] | Some v \<Rightarrow> v) of
                   (analyzerProperties, invokeConfigUpdate) \<Rightarrow>
                    (let updates = (if invokeConfigUpdate
                                    then [ConfigurationUpdated analyzerProperties] else [])
                     in case map_of analyzerProperties buildWrapperOutputKey of
                          None \<Rightarrow> (updates, Inl TypeError)
                        | Some output \<Rightarrow>
                            (updates,
                             Inr (join Path [replaceFirst workspaceFolderVariable folderPath output,
                                             ''build-wrapper-dump.json''],
                                  buildWrapperCompiler, environment))))))"

text \<open>
  Lines 857 to 888: nothing is done when the dump file is there and newer than the
  database; a read error ends the callback quietly, a text that is not JSON makes
  \<open>JSON.parse\<close> throw; the callback of \<open>mkdir\<close> writes the file whether the directory could
  be made or not.
\<close>

definition convertCompilationDB ::
  "path_module \<Rightarrow> (string \<Rightarrow> error + string list) \<Rightarrow> host \<Rightarrow> string \<Rightarrow> effect list \<times> error option" where
  "convertCompilationDB Path split h compilationDatabaseFile =
     (if \<not> existsSync h compilationDatabaseFile then ([], None)
      else
       (case prepareConversion Path h compilationDatabaseFile of
          (updates, Inl e) \<Rightarrow> (updates, Some e)
        | (updates, Inr (buildWrapperMapFile, buildWrapperCompiler, environment)) \<Rightarrow>
            if existsSync h buildWrapperMapFile \<and>
               mtime h buildWrapperMapFile > mtime h compilationDatabaseFile
            then (updates, None)
            else
             (case readFile h compilationDatabaseFile of
                Unreadable \<Rightarrow> (updates, None)
              | Malformed \<Rightarrow> (updates, Some SyntaxError)
              | Database compilationDatabaseData \<Rightarrow>
                 (case captureEntries split buildWrapperCompiler environment
                         compilationDatabaseData [] of
                    Inl e \<Rightarrow> (updates, Some e)
                  | Inr caps \<Rightarrow>
                     (updates @
                      [DirectoryMade (dirname Path buildWrapperMapFile),
                       FileWritten buildWrapperMapFile \<lparr>version = 0, captures = caps\<rparr>],
                      None)))))"

text \<open>
  For running the conversion on an example: what shell word splitting does to a command
  line without quotation marks and backslashes, the words between blanks.
\<close>

definition splitPlain :: "string \<Rightarrow> error + string list" where
  "splitPlain s = Inr (filter (\<lambda>w. w \<noteq> []) (splitOn CHR '' '' s))"

section \<open>A host for running the functions on examples\<close>

text \<open>
  A POSIX machine with the workspace folder \<open>/w\<close>, the extension in \<open>/ext dir\<close>, \<open>clang\<close> in
  \<open>/usr/bin\<close>, default settings, and a compilation database with one entry.
\<close>

definition exampleHost :: host where
  "exampleHost =
     \<lparr>DEBUG = False, vmargsSetting = ''-Xmx512m'', showVerboseLogs = True,
      existsSync = (\<lambda>f. f = ''/w/compile_commands.json''),
      mtime = (\<lambda>f. 0),
      accessSync = (\<lambda>f. f = ''/usr/bin/clang''),
      readFile = (\<lambda>f. Database [\<lparr>directory = Some ''/p'', command = Some ''gcc -c a.c'',
                                    arguments = None, entryFile = Some ''a.c''\<rparr>]),
      envPATH = Some ''/bin:/usr/bin'',
      processEnv = [(''HOME'', ''/home/me'')],
      workspaceFolderOf = (\<lambda>f. if startsWith f ''/w/'' then Some ''/w'' else None),
      buildWrapperOutputSetting = None, buildWrapperEnvSetting = None,
      buildWrapperCompilerSetting = None, analyzerPropertiesSetting = None\<rparr>"

definition exampleIgnoreHost :: ignore_host where
  "exampleIgnoreHost =
     \<lparr>parseUri = Inr,
      getWorkspaceFolder = (\<lambda>u. if startsWith u ''file:///w/'' then Some ''/w'' else None),
      asRelativePath = drop (length ''file:///w/''),
      gitExtension = None\<rparr>"

text \<open>An \<open>scmCheck\<close> that reports every file as ignored.\<close>

definition ignoresEverything :: "string \<Rightarrow> string \<Rightarrow> error + bool" where
  "ignoresEverything workspaceFolderPath gitCommand = Inr True"





section \<open>Properties of the source-control bridge\<close>

lemma sentBranchNames_log [simp]:
  "sentBranchNames (logToSonarLintOutput m w) = sentBranchNames w"
  by (simp add: logToSonarLintOutput_def split: option.splits)

lemma sentBranchNames_notify [simp]:
  "sentBranchNames (didLocalBranchNameChange f b w) = sentBranchNames w @ [(f, b)]"
  by (simp add: didLocalBranchNameChange_def)











text \<open>
  C3: the branch lookup of the functioning bridge, asked for a folder that has no
  repository, throws a TypeError (\<open>getRepository\<close> gives null and \<open>state\<close> is read from it).
  Here the bridge is the one \<open>initScm\<close> builds on an initialized git API that knows no
  repository.
\<close>

theorem getBranchForFolder_without_repository:
  "getBranchForFolder
     (fst (initScm describe
             (Some (Some (Inr \<lparr>apiState = Initialized, repositories = [], repositoryOf = []\<rparr>)))
             (Some [''file:///w'']) startWorld))
     \<lparr>apiState = Initialized, repositories = [], repositoryOf = []\<rparr> ''file:///w''
   = Inl TypeError"
  by (simp add: getBranchForFolder_def initScm_def newGitScm_def
        subscribeToAllRepositoryChanges_def getRepository_def)

lemma initialBranchLoop_sent:
  "sentBranchNames (initialBranchLoop api folders w) =
     sentBranchNames w @ map (\<lambda>f. (f, folderBranchName api f)) folders"
  by (induction folders arbitrary: w) (simp_all add: Let_def)

text \<open>
  C4, as the code has it: the initial enumeration (in the constructor when the git API is
  initialized, otherwise when its state changes to initialized, and not before) sends one
  branch notification for every workspace folder, in order: the HEAD name of the repository
  \<open>getRepository\<close> finds for the folder, and nothing when it finds none or HEAD has no name.
\<close>

theorem initial_enumeration_notifies_every_folder:
  "(apiState api = Initialized \<longrightarrow>
      (\<exists>s' w'. newGitScm (Some api) (Some folders) w = Inr (s', w')
         \<and> sentBranchNames w' =
             sentBranchNames w @ map (\<lambda>f. (f, folderBranchName api f)) folders))
   \<and> (apiState api \<noteq> Initialized \<longrightarrow>
        (\<exists>s'. newGitScm (Some api) (Some folders) w = Inr (s', w)))
   \<and> (\<exists>s' w'. apiStateChanged api Initialized (Some folders) s w = (s', Inr w')
         \<and> sentBranchNames w' =
             sentBranchNames w @ map (\<lambda>f. (f, folderBranchName api f)) folders)"
  by (simp add: newGitScm_def apiStateChanged_def subscribeToAllRepositoryChanges_def
        initialBranchLoop_sent)

theorem initial_enumeration_notifies_every_folder_witness:
  "(\<exists>s' w'. newGitScm
        (Some \<lparr>apiState = Initialized,
               repositories = [\<lparr>rootUri = ''file:///w'', HEAD = Some \<lparr>name = Some ''main''\<rparr>\<rparr>],
               repositoryOf = [(''file:///w/app'',
                                \<lparr>rootUri = ''file:///w'', HEAD = Some \<lparr>name = Some ''main''\<rparr>\<rparr>)]\<rparr>)
        (Some [''file:///w/app'', ''file:///other'']) startWorld = Inr (s', w')
      \<and> sentBranchNames w' = [(''file:///w/app'', Some ''main''), (''file:///other'', None)])
   \<and> (\<exists>s'. newGitScm (Some \<lparr>apiState = Uninitialized, repositories = [], repositoryOf = []\<rparr>)
              (Some [''file:///other'']) startWorld = Inr (s', startWorld))"
  using initial_enumeration_notifies_every_folder
          [of "\<lparr>apiState = Initialized,
                repositories = [\<lparr>rootUri = ''file:///w'', HEAD = Some \<lparr>name = Some ''main''\<rparr>\<rparr>],
                repositoryOf = [(''file:///w/app'',
                                 \<lparr>rootUri = ''file:///w'', HEAD = Some \<lparr>name = Some ''main''\<rparr>\<rparr>)]\<rparr>"
              "[''file:///w/app'', ''file:///other'']" startWorld]
        initial_enumeration_notifies_every_folder
          [of "\<lparr>apiState = Uninitialized, repositories = [], repositoryOf = []\<rparr>"
              "[''file:///other'']" startWorld]
  by (simp add: folderBranchName_def getRepository_def headName_def startWorld_def)

text \<open>
  C4, as the claim states it, fails: with no repository known at all, the initial
  enumeration still sends a notification for the workspace folder (without a branch name).
\<close>

theorem initial_enumeration_counterexample:
  "newGitScm (Some \<lparr>apiState = Initialized, repositories = [], repositoryOf = []\<rparr>)
     (Some [''file:///w''])
     \<lparr>sonarlintOutput = None, sentBranchNames = [], disposed = [], occurrences = [],
      serverAddress = None, stream = Pending\<rparr>
   = Inr (\<lparr>listeners = [OpenRepositorySubscription], stateListenerInstalled = False\<rparr>,
          \<lparr>sonarlintOutput = None, sentBranchNames = [(''file:///w'', None)], disposed = [],
           occurrences = [], serverAddress = None, stream = Pending\<rparr>)"
  by (simp add: newGitScm_def subscribeToAllRepositoryChanges_def Let_def
        folderBranchName_def getRepository_def logToSonarLintOutput_def
        didLocalBranchNameChange_def)

lemma disposeLoop_all:
  "disposeLoop throwing ds w = Inr (w\<lparr>disposed := disposed w @ ds\<rparr>)"
  by (induction ds arbitrary: w) (simp_all add: disposeListener_def)

text \<open>
  C9: disposing the functioning bridge never throws, whatever listeners it holds and
  whichever of their \<open>dispose\<close> calls throw: the result is a normal return, and \<open>dispose\<close> has
  been called on every listener, in order.
\<close>

theorem dispose_isolates_failures:
  "dispose throwing (GitScm s) w = Inr (w\<lparr>disposed := disposed w @ listeners s\<rparr>)"
  by (simp add: dispose_def disposeLoop_all)

section \<open>Properties of \<open>toUrl\<close>\<close>

lemma hexValue_hexDigit_upto: "\<forall>n \<in> set [0..<16]. hexValue (hexDigit n) = Some n"
  by code_simp

lemma hexValue_hexDigit: "n < 16 \<Longrightarrow> hexValue (hexDigit n) = Some n"
  using hexValue_hexDigit_upto by simp

lemma percent_is_escaped:
  "\<not> (uriReserved CHR ''%'' \<or> uriUnescaped CHR ''%'' \<or> CHR ''%'' = CHR ''#'')"
  by code_simp

lemma decodeURI_encodeURIChar:
  assumes "decodeURI t = Inr r"
  shows "decodeURI (encodeURIChar c @ t) = Inr (c # r)"
proof (cases "uriReserved c \<or> uriUnescaped c \<or> c = CHR ''#''")
  case True
  then have "c \<noteq> CHR ''%''" using percent_is_escaped by auto
  then show ?thesis using True assms by (simp add: encodeURIChar_def)
next
  case False
  have d: "(of_char c :: nat) div 16 < 16"
    by (rule less_mult_imp_div_less) simp
  have m: "(of_char c :: nat) mod 16 < 16" by simp
  show ?thesis
    using False assms hexValue_hexDigit [OF d] hexValue_hexDigit [OF m]
    by (simp add: encodeURIChar_def)
qed

lemma decodeURI_encodeURI: "decodeURI (encodeURI s) = Inr s"
  by (induction s) (simp_all add: encodeURI_def decodeURI_encodeURIChar)

lemma encodeURI_append: "encodeURI (a @ b) = encodeURI a @ encodeURI b"
  by (simp add: encodeURI_def)

lemma encodeURI_scheme: "encodeURI ''file://'' = ''file://''"
  by code_simp

lemma encodeURI_slash: "encodeURI ''/'' = ''/''"
  by code_simp

lemma encodeURI_first: "(take 1 (encodeURI s) = ''/'') = (take 1 s = ''/'')"
proof (cases s)
  case Nil
  then show ?thesis by (simp add: encodeURI_def)
next
  case (Cons c cs)
  have "uriReserved CHR ''/''" by code_simp
  then show ?thesis using Cons by (auto simp: encodeURI_def encodeURIChar_def)
qed

lemma replaceBackslashes_id: "backslash \<notin> set p \<Longrightarrow> replaceBackslashes p = p"
  unfolding replaceBackslashes_def by (induction p) auto

text \<open>
  C1, as the code has it. A path that \<open>Path.resolve\<close> leaves as it is, that starts with
  \<open>/\<close> and has no backslash comes back from the URL: decoding the URL gives \<open>file://\<close>
  followed by the path. In general the URL is \<open>file://\<close>, then one \<open>/\<close> exactly when the
  resolved path (backslashes turned into slashes) does not start with one, then the
  percent-encoding of that path, which starts with \<open>/\<close> only if the path does.
\<close>

theorem toUrl_round_trip_on_resolved_paths:
  "(resolve Path [filePath] = filePath \<and> backslash \<notin> set filePath \<and> take 1 filePath = ''/''
      \<longrightarrow> decodeURI (toUrl Path filePath) = Inr (''file://'' @ filePath))
   \<and> toUrl Path filePath =
       ''file://''
       @ (if take 1 (replaceBackslashes (resolve Path [filePath])) \<noteq> ''/'' then ''/'' else [])
       @ encodeURI (replaceBackslashes (resolve Path [filePath]))
   \<and> (take 1 (encodeURI (replaceBackslashes (resolve Path [filePath]))) = ''/'')
       = (take 1 (replaceBackslashes (resolve Path [filePath])) = ''/'')"
proof (intro conjI impI)
  assume "resolve Path [filePath] = filePath \<and> backslash \<notin> set filePath
            \<and> take 1 filePath = ''/''"
  then have "toUrl Path filePath = encodeURI (''file://'' @ filePath)"
    by (simp add: toUrl_def Let_def replaceBackslashes_id)
  then show "decodeURI (toUrl Path filePath) = Inr (''file://'' @ filePath)"
    by (simp only: decodeURI_encodeURI)
next
  let ?r = "replaceBackslashes (resolve Path [filePath])"
  have "toUrl Path filePath =
          encodeURI (''file://'' @ (if take 1 ?r \<noteq> ''/'' then ''/'' else []) @ ?r)"
    by (simp add: toUrl_def Let_def)
  also have "\<dots> = ''file://'' @ (if take 1 ?r \<noteq> ''/'' then ''/'' else []) @ encodeURI ?r"
    using encodeURI_slash
    by (simp only: encodeURI_append encodeURI_scheme) (simp add: encodeURI_def)
  finally show "toUrl Path filePath =
      ''file://'' @ (if take 1 ?r \<noteq> ''/'' then ''/'' else []) @ encodeURI ?r" .
next
  show "(take 1 (encodeURI (replaceBackslashes (resolve Path [filePath]))) = ''/'')
       = (take 1 (replaceBackslashes (resolve Path [filePath])) = ''/'')"
    by (rule encodeURI_first)
qed

theorem toUrl_round_trip_on_resolved_paths_witness:
  "resolve (posixPath ''/w'') [''/ext dir/a.jar''] = ''/ext dir/a.jar''
   \<and> backslash \<notin> set ''/ext dir/a.jar'' \<and> take 1 ''/ext dir/a.jar'' = ''/''
   \<and> toUrl (posixPath ''/w'') ''/ext dir/a.jar'' = ''file:///ext%20dir/a.jar''
   \<and> decodeURI ''file:///ext%20dir/a.jar'' = Inr (''file://'' @ ''/ext dir/a.jar'')"
proof -
  have r: "resolve (posixPath ''/w'') [''/ext dir/a.jar''] = ''/ext dir/a.jar''"
    by code_simp
  have b: "backslash \<notin> set ''/ext dir/a.jar''" by code_simp
  have t: "take 1 ''/ext dir/a.jar'' = ''/''" by simp
  have u: "toUrl (posixPath ''/w'') ''/ext dir/a.jar'' = ''file:///ext%20dir/a.jar''"
    by code_simp
  have "decodeURI (toUrl (posixPath ''/w'') ''/ext dir/a.jar'')
          = Inr (''file://'' @ ''/ext dir/a.jar'')"
    using toUrl_round_trip_on_resolved_paths [of "posixPath ''/w''" "''/ext dir/a.jar''"] r b t
    by blast
  then have "decodeURI ''file:///ext%20dir/a.jar'' = Inr (''file://'' @ ''/ext dir/a.jar'')"
    by (simp only: u)
  with r b t u show ?thesis by (intro conjI)
qed

text \<open>
  C1, as the claim states it, fails: on a POSIX machine the path \<open>/a\b\<close> (a backslash is an
  ordinary character of a file name there) and the path \<open>/a/b\<close> have the same URL,
  and decoding it gives \<open>/a/b\<close>.
\<close>

theorem toUrl_round_trip_counterexample:
  "toUrl (posixPath ''/w'') [CHR ''/'', CHR ''a'', CHR 0x5C, CHR ''b'']
     = toUrl (posixPath ''/w'') ''/a/b''
   \<and> [CHR ''/'', CHR ''a'', CHR 0x5C, CHR ''b''] \<noteq> ''/a/b''
   \<and> decodeURI (toUrl (posixPath ''/w'') [CHR ''/'', CHR ''a'', CHR 0x5C, CHR ''b''])
       = Inr (''file://'' @ ''/a/b'')"
  by code_simp

section \<open>Properties of \<open>parseVMargs\<close>\<close>

lemma pushArgs_appends:
  "\<exists>added. pushArgs params vmargs = params @ added \<and> distinct added
     \<and> set added \<inter> set params = {}"
proof (induction vmargs arbitrary: params)
  case Nil
  then show ?case by simp
next
  case (Cons arg vmargs)
  let ?a = "unescapeQuotes (removeStandaloneQuotes arg)"
  show ?case
  proof (cases "?a \<in> set params")
    case True
    then show ?thesis using Cons.IH [of params] by (simp add: Let_def)
  next
    case False
    from Cons.IH [of "params @ [?a]"] obtain added where
      a: "pushArgs (params @ [?a]) vmargs = (params @ [?a]) @ added"
      and d: "distinct added" and i: "set added \<inter> set (params @ [?a]) = {}"
      by blast
    have "pushArgs params (arg # vmargs) = params @ (?a # added)"
      using False a by (simp add: Let_def)
    moreover have "distinct (?a # added)" using d i by auto
    moreover have "set (?a # added) \<inter> set params = {}" using False i by auto
    ultimately show ?thesis by blast
  qed
qed

lemma parseVMargs_appends:
  "\<exists>added. parseVMargs params vmargsLine = params @ added \<and> distinct added
     \<and> set added \<inter> set params = {}"
proof (cases "vmargsLine = [] \<or> regexMatch vmargsLine = None")
  case True
  then have "parseVMargs params vmargsLine = params @ []"
    by (auto simp: parseVMargs_def)
  then show ?thesis by (metis distinct.simps(1) empty_set inf_bot_left)
next
  case False
  then obtain vmargs where "parseVMargs params vmargsLine = pushArgs params vmargs"
    by (auto simp: parseVMargs_def)
  then show ?thesis using pushArgs_appends [of params vmargs] by simp
qed

lemma regexMatch_quoted_example:
  "regexMatch (''-Xmx512m '' @ [dquote] @ ''-Dfoo=bar baz'' @ [dquote]) =
     Some [''-Xmx512m'', [dquote] @ ''-Dfoo=bar baz'' @ [dquote]]"
  by code_simp

lemma strip_plain_example:
  "unescapeQuotes (removeStandaloneQuotes ''-Xmx512m'') = ''-Xmx512m''"
  by code_simp

lemma strip_quoted_example:
  "unescapeQuotes (removeStandaloneQuotes ([dquote] @ ''-Dfoo=bar baz'' @ [dquote]))
     = ''-Dfoo=bar baz''"
  by code_simp

lemma parseVMargs_quoted_example:
  "parseVMargs params (''-Xmx512m '' @ [dquote] @ ''-Dfoo=bar baz'' @ [dquote]) =
     params @ filter (\<lambda>a. a \<notin> set params) [''-Xmx512m'', ''-Dfoo=bar baz'']"
proof -
  have "parseVMargs params (''-Xmx512m '' @ [dquote] @ ''-Dfoo=bar baz'' @ [dquote]) =
          pushArgs params [''-Xmx512m'', [dquote] @ ''-Dfoo=bar baz'' @ [dquote]]"
    using regexMatch_quoted_example by (simp add: parseVMargs_def)
  also have "\<dots> = params @ filter (\<lambda>a. a \<notin> set params) [''-Xmx512m'', ''-Dfoo=bar baz'']"
    using strip_plain_example strip_quoted_example
    by (simp add: Let_def del: append.simps)
  finally show ?thesis .
qed

lemma parseVMargs_escaped_example:
  "parseVMargs [] (''-Dq='' @ [backslash, dquote] @ ''v'' @ [backslash, dquote]) =
     [''-Dq='' @ [dquote] @ ''v'' @ [dquote]]"
  by code_simp

text \<open>
  C5: on the line \<open>-Xmx512m "-Dfoo=bar baz"\<close> the arguments pushed onto an empty list are
  \<open>-Xmx512m\<close> and \<open>-Dfoo=bar baz\<close>, the quotes gone, and onto any list those of the two that
  are not in it; on \<open>-Dq=\"v\"\<close> the escaped quotes come out as quotes. For every parameter
  list and line, what is already in the list is not pushed again: the list afterwards is
  the list before followed by new, pairwise different arguments, none of which was in it,
  so every argument of the list keeps its number of occurrences.
\<close>

theorem parseVMargs_example_and_no_duplicates:
  "parseVMargs [] (''-Xmx512m '' @ [dquote] @ ''-Dfoo=bar baz'' @ [dquote]) =
     [''-Xmx512m'', ''-Dfoo=bar baz'']
   \<and> parseVMargs params (''-Xmx512m '' @ [dquote] @ ''-Dfoo=bar baz'' @ [dquote]) =
       params @ filter (\<lambda>a. a \<notin> set params) [''-Xmx512m'', ''-Dfoo=bar baz'']
   \<and> parseVMargs [] (''-Dq='' @ [backslash, dquote] @ ''v'' @ [backslash, dquote]) =
       [''-Dq='' @ [dquote] @ ''v'' @ [dquote]]
   \<and> (\<forall>a \<in> set params. count_list (parseVMargs params vmargsLine) a = count_list params a)
   \<and> (\<exists>added. parseVMargs params vmargsLine = params @ added \<and> distinct added
         \<and> set added \<inter> set params = {})"
proof -
  obtain added where a: "parseVMargs params vmargsLine = params @ added"
    and d: "distinct added" and i: "set added \<inter> set params = {}"
    using parseVMargs_appends by blast
  have c: "count_list (parseVMargs params vmargsLine) x = count_list params x"
    if "x \<in> set params" for x
  proof -
    from that i have "x \<notin> set added" by auto
    then show ?thesis using a by (simp add: count_list_0_iff)
  qed
  have e: "parseVMargs [] (''-Xmx512m '' @ [dquote] @ ''-Dfoo=bar baz'' @ [dquote]) =
     [''-Xmx512m'', ''-Dfoo=bar baz'']"
    using parseVMargs_quoted_example [of "[]"] by simp
  show ?thesis
    using e parseVMargs_quoted_example [of params] parseVMargs_escaped_example c a d i
    by blast
qed

theorem parseVMargs_example_and_no_duplicates_witness:
  "''-Xmx512m'' \<in> set [''-Xmx512m'']
   \<and> count_list (parseVMargs [''-Xmx512m''] ''-Xmx512m -Dfoo'') ''-Xmx512m''
       = count_list [''-Xmx512m''] ''-Xmx512m''
   \<and> parseVMargs [''-Xmx512m''] ''-Xmx512m -Dfoo'' = [''-Xmx512m'', ''-Dfoo'']"
proof -
  have m: "''-Xmx512m'' \<in> set [''-Xmx512m'']" by simp
  have p: "parseVMargs [''-Xmx512m''] ''-Xmx512m -Dfoo'' = [''-Xmx512m'', ''-Dfoo'']"
    by code_simp
  from parseVMargs_example_and_no_duplicates [of "[''-Xmx512m'']" "''-Xmx512m -Dfoo''"] m
  have "count_list (parseVMargs [''-Xmx512m''] ''-Xmx512m -Dfoo'') ''-Xmx512m''
          = count_list [''-Xmx512m''] ''-Xmx512m''"
    by blast
  with m p show ?thesis by (intro conjI)
qed

section \<open>Properties of the start of the language server\<close>

lemma port_in_args:
  "showNat port \<in> set (snd (languageServerCommand Path h context requirements port))"
  by (simp add: languageServerCommand_def Let_def)

lemma log_keeps_server_state [simp]:
  "occurrences (logToSonarLintOutput m w) = occurrences w"
  "serverAddress (logToSonarLintOutput m w) = serverAddress w"
  "stream (logToSonarLintOutput m w) = stream w"
  by (simp_all add: logToSonarLintOutput_def split: option.splits)

lemma serverConnection_active:
  assumes "serverAddress w = Some p"
  shows "\<exists>w'. serverConnection h k (occurs (ConnectionAccepted k) w) = Inr w'
           \<and> occurrences w' = occurrences w @ [ConnectionAccepted k, StreamResolved k]
           \<and> serverAddress w' = Some p
           \<and> stream w' = (if stream w = Pending then Fulfilled k else stream w)"
  using assms by (simp add: serverConnection_def resolveStream_def occurs_def)

lemma run_active:
  assumes "serverAddress w = Some p"
    and "run Path h context requirements evs w = Some r"
  shows "\<exists>ks w'. evs = map Connection ks \<and> r = Inr w'
           \<and> occurrences w' =
               occurrences w @ concat (map (\<lambda>k. [ConnectionAccepted k, StreamResolved k]) ks)
           \<and> stream w' =
               (if stream w = Pending then (case ks of [] \<Rightarrow> Pending | k # _ \<Rightarrow> Fulfilled k)
                else stream w)"
  using assms
proof (induction evs arbitrary: w r)
  case Nil
  then show ?case by auto
next
  case (Cons e evs)
  show ?case
  proof (cases e)
    case (Listening q)
    then show ?thesis using Cons.prems by (simp add: deliver_def listenRequested_def)
  next
    case (Connection k)
    from serverConnection_active [OF Cons.prems(1), of h k] obtain w1 where
      c: "serverConnection h k (occurs (ConnectionAccepted k) w) = Inr w1"
      and o: "occurrences w1 = occurrences w @ [ConnectionAccepted k, StreamResolved k]"
      and a: "serverAddress w1 = Some p"
      and s: "stream w1 = (if stream w = Pending then Fulfilled k else stream w)"
      by blast
    have "run Path h context requirements evs w1 = Some r"
      using Cons.prems Connection c by (simp add: deliver_def)
    from Cons.IH [OF a this] obtain ks w' where
      e: "evs = map event.Connection ks" and r: "r = Inr w'"
      and o': "occurrences w' =
                 occurrences w1 @ concat (map (\<lambda>k. [ConnectionAccepted k, StreamResolved k]) ks)"
      and s': "stream w' =
                 (if stream w1 = Pending then (case ks of [] \<Rightarrow> Pending | k # _ \<Rightarrow> Fulfilled k)
                  else stream w1)"
      by blast
    have "e # evs = map event.Connection (k # ks)" using Connection e by simp
    moreover have "occurrences w' =
        occurrences w @ concat (map (\<lambda>k. [ConnectionAccepted k, StreamResolved k]) (k # ks))"
      using o o' by simp
    moreover have "stream w' =
        (if stream w = Pending then (case k # ks of [] \<Rightarrow> Pending | k # _ \<Rightarrow> Fulfilled k)
         else stream w)"
      using s s' by simp
    ultimately show ?thesis
      using r by (intro exI [of _ "k # ks"] exI [of _ w'] conjI)
  qed
qed

lemma run_shape:
  assumes "occurrences w0 = []" and "serverAddress w0 = None" and "stream w0 = Pending"
    and "run Path h context requirements evs (runJavaServer (Inr requirements) w0) = Some r"
  shows "\<exists>w. r = Inr w \<and>
          (evs = [] \<and> occurrences w = [ServerCreated, ListenCalled 0] \<and> stream w = Pending
           \<or> (\<exists>port sockets executablePath args.
                 evs = Listening port # map Connection sockets
                 \<and> languageServerCommand Path h context requirements port = (executablePath, args)
                 \<and> showNat port \<in> set args
                 \<and> occurrences w =
                     [ServerCreated, ListenCalled 0, ListenerActive port,
                      ChildSpawned executablePath args]
                     @ concat (map (\<lambda>k. [ConnectionAccepted k, StreamResolved k]) sockets)
                 \<and> stream w = (case sockets of [] \<Rightarrow> Pending | k # _ \<Rightarrow> Fulfilled k)))"
proof (cases evs)
  case Nil
  then show ?thesis using assms
    by (auto simp: runJavaServer_def occurs_def)
next
  case (Cons e es)
  let ?w1 = "runJavaServer (Inr requirements) w0"
  have w1: "occurrences ?w1 = [ServerCreated, ListenCalled 0]" "serverAddress ?w1 = None"
    "stream ?w1 = Pending"
    using assms(1-3) by (simp_all add: runJavaServer_def occurs_def)
  show ?thesis
  proof (cases e)
    case (Connection k)
    then show ?thesis using assms(4) Cons w1 by (simp add: deliver_def)
  next
    case (Listening port)
    obtain executablePath args where
      lc: "languageServerCommand Path h context requirements port = (executablePath, args)"
      by (cases "languageServerCommand Path h context requirements port")
    have pa: "showNat port \<in> set args"
      using port_in_args [of port Path h "context" requirements] lc by simp
    let ?w2 = "occurs (ListenerActive port) (?w1\<lparr>serverAddress := Some port\<rparr>)"
    define w3 where
      "w3 = occurs (ChildSpawned executablePath args)
              (if isVerboseEnabled h
               then logToSonarLintOutput
                      (''Executing '' @ executablePath @ '' '' @ joinWith '' '' args) ?w2
               else ?w2)"
    have l: "serverListening Path h context requirements ?w2 = Inr w3"
      using lc by (simp add: serverListening_def w3_def occurs_def Let_def)
    have o3: "occurrences w3 = [ServerCreated, ListenCalled 0, ListenerActive port,
                                ChildSpawned executablePath args]"
      and a3: "serverAddress w3 = Some port" and s3: "stream w3 = Pending"
      using w1 by (simp_all add: w3_def occurs_def)
    have "listenRequested port ?w1" using w1 by (simp add: listenRequested_def)
    then have "run Path h context requirements es w3 = Some r"
      using assms(4) Cons Listening l by (simp add: deliver_def)
    from run_active [OF a3 this] obtain ks w' where
      "es = map Connection ks" "r = Inr w'"
      "occurrences w' =
         occurrences w3 @ concat (map (\<lambda>k. [ConnectionAccepted k, StreamResolved k]) ks)"
      "stream w' = (if stream w3 = Pending then (case ks of [] \<Rightarrow> Pending | k # _ \<Rightarrow> Fulfilled k)
                    else stream w3)"
      by blast
    then show ?thesis using Cons Listening lc pa o3 s3 by auto
  qed
qed

lemma run_connections:
  "serverAddress w = Some p \<Longrightarrow>
     \<exists>w'. run Path h context requirements (map Connection ks) w = Some (Inr w')"
proof (induction ks arbitrary: w)
  case Nil
  then show ?case by simp
next
  case (Cons k ks)
  from serverConnection_active [OF Cons.prems, of h k] obtain w1 where
    c: "serverConnection h k (occurs (ConnectionAccepted k) w) = Inr w1"
    and a: "serverAddress w1 = Some p"
    by blast
  from Cons.IH [OF a] show ?case using c Cons.prems by (simp add: deliver_def)
qed

lemma run_exists:
  assumes "occurrences w0 = []" and "serverAddress w0 = None"
  shows "\<exists>w. run Path h context requirements (Listening port # map Connection sockets)
               (runJavaServer (Inr requirements) w0) = Some (Inr w)"
proof -
  let ?w1 = "runJavaServer (Inr requirements) w0"
  let ?w2 = "occurs (ListenerActive port) (?w1\<lparr>serverAddress := Some port\<rparr>)"
  have l: "listenRequested port ?w1"
    using assms by (simp add: listenRequested_def runJavaServer_def occurs_def)
  have "\<exists>w3. serverListening Path h context requirements ?w2 = Inr w3
          \<and> serverAddress w3 = Some port"
    by (cases "languageServerCommand Path h context requirements port")
       (simp add: serverListening_def occurs_def Let_def)
  then obtain w3 where s: "serverListening Path h context requirements ?w2 = Inr w3"
    and a: "serverAddress w3 = Some port"
    by blast
  from run_connections [OF a, of Path h "context" requirements sockets] l s
  show ?thesis by (simp add: deliver_def)
qed

text \<open>
  C7: once the requirements are resolved, \<open>runJavaServer\<close> creates the server and calls
  \<open>listen\<close> with port 0, and nothing else. The events that can follow are the socket
  becoming active on the port the operating system chose, and then connections, and every
  such sequence runs through without an exception. In a run, the child is spawned after
  \<open>listen(0)\<close> and after the listener is active, with the decimal text of the listener's port
  among its arguments; the stream is resolved right after a connection is accepted, no
  other event in between, and the promise holds the socket of the first connection from
  then on (it is pending as long as there is none).
\<close>

theorem child_spawned_after_listening_and_stream_resolved_on_connection:
  assumes "occurrences w0 = []" and "serverAddress w0 = None" and "stream w0 = Pending"
  shows "(\<exists>w. run Path h context requirements (Listening port # map Connection sockets)
                (runJavaServer (Inr requirements) w0) = Some (Inr w))
     \<and> (run Path h context requirements evs (runJavaServer (Inr requirements) w0) = Some r \<longrightarrow>
         (\<exists>w. r = Inr w \<and>
            (evs = [] \<and> occurrences w = [ServerCreated, ListenCalled 0] \<and> stream w = Pending
             \<or> (\<exists>port sockets executablePath args.
                   evs = Listening port # map Connection sockets
                   \<and> languageServerCommand Path h context requirements port = (executablePath, args)
                   \<and> showNat port \<in> set args
                   \<and> occurrences w =
                       [ServerCreated, ListenCalled 0, ListenerActive port,
                        ChildSpawned executablePath args]
                       @ concat (map (\<lambda>k. [ConnectionAccepted k, StreamResolved k]) sockets)
                   \<and> stream w = (case sockets of [] \<Rightarrow> Pending | k # _ \<Rightarrow> Fulfilled k)))))"
  using run_exists [OF assms(1,2)] run_shape [OF assms] by blast

theorem child_spawned_after_listening_and_stream_resolved_on_connection_witness:
  "occurrences startWorld = [] \<and> serverAddress startWorld = None \<and> stream startWorld = Pending
   \<and> (\<exists>w args.
        run (posixPath ''/w'') exampleHost \<lparr>extensionPath = ''/ext dir''\<rparr> \<lparr>javaHome = ''/jre''\<rparr>
          [Listening 40123, Connection 7, Connection 8]
          (runJavaServer (Inr \<lparr>javaHome = ''/jre''\<rparr>) startWorld) = Some (Inr w)
        \<and> occurrences w =
            [ServerCreated, ListenCalled 0, ListenerActive 40123,
             ChildSpawned ''/jre/bin/java'' args,
             ConnectionAccepted 7, StreamResolved 7, ConnectionAccepted 8, StreamResolved 8]
        \<and> ''40123'' \<in> set args
        \<and> stream w = Fulfilled 7)"
proof -
  have s: "occurrences startWorld = []" "serverAddress startWorld = None"
    "stream startWorld = Pending"
    by (simp_all add: startWorld_def)
  note main = child_spawned_after_listening_and_stream_resolved_on_connection
                [OF s, of "posixPath ''/w''" exampleHost "\<lparr>extensionPath = ''/ext dir''\<rparr>"
                   "\<lparr>javaHome = ''/jre''\<rparr>" 40123 "[7, 8]"
                   "[Listening 40123, Connection 7, Connection 8]"]
  from main [THEN conjunct1]
  obtain w where r: "run (posixPath ''/w'') exampleHost \<lparr>extensionPath = ''/ext dir''\<rparr>
          \<lparr>javaHome = ''/jre''\<rparr> [Listening 40123, Connection 7, Connection 8]
          (runJavaServer (Inr \<lparr>javaHome = ''/jre''\<rparr>) startWorld) = Some (Inr w)"
    by auto
  have n: "showNat 40123 = ''40123''" by (simp add: showNat.simps)
  have j: "fst (languageServerCommand (posixPath ''/w'') exampleHost
                  \<lparr>extensionPath = ''/ext dir''\<rparr> \<lparr>javaHome = ''/jre''\<rparr> port) = ''/jre/bin/java''"
    for port
    by (simp add: languageServerCommand_def Let_def posixPath_def posixResolve_def
          isAbsolute_def normalizeString_def)
  from main [THEN conjunct2, rule_format, OF r]
  have "\<exists>port sockets executablePath args.
          [Listening 40123, Connection 7, Connection 8] = Listening port # map Connection sockets
          \<and> languageServerCommand (posixPath ''/w'') exampleHost \<lparr>extensionPath = ''/ext dir''\<rparr>
               \<lparr>javaHome = ''/jre''\<rparr> port = (executablePath, args)
          \<and> showNat port \<in> set args
          \<and> occurrences w =
                     [ServerCreated, ListenCalled 0, ListenerActive port,
                      ChildSpawned executablePath args]
                     @ concat (map (\<lambda>k. [ConnectionAccepted k, StreamResolved k]) sockets)
          \<and> stream w = (case sockets of [] \<Rightarrow> Pending | k # _ \<Rightarrow> Fulfilled k)"
    by simp
  then obtain port sockets executablePath args where
    e: "[Listening 40123, Connection 7, Connection 8] = Listening port # map Connection sockets"
    and l: "languageServerCommand (posixPath ''/w'') exampleHost \<lparr>extensionPath = ''/ext dir''\<rparr>
             \<lparr>javaHome = ''/jre''\<rparr> port = (executablePath, args)"
    and p: "showNat port \<in> set args"
    and o: "occurrences w =
                     [ServerCreated, ListenCalled 0, ListenerActive port,
                      ChildSpawned executablePath args]
                     @ concat (map (\<lambda>k. [ConnectionAccepted k, StreamResolved k]) sockets)"
    and t: "stream w = (case sockets of [] \<Rightarrow> Pending | k # _ \<Rightarrow> Fulfilled k)"
    by (elim exE conjE)
  from e have port: "port = 40123" and sockets: "sockets = [7, 8]" by auto
  from j [of port] l have x: "executablePath = ''/jre/bin/java''" by simp
  show ?thesis using s r n port sockets x p o t by simp
qed

section \<open>Properties of the conversion of a compilation database\<close>

lemma captureEntries_append:
  "captureEntries split c environment es done =
     (case captureEntries split c environment es [] of
        Inl e \<Rightarrow> Inl e | Inr caps \<Rightarrow> Inr (done @ caps))"
proof (induction es arbitrary: "done")
  case Nil
  then show ?case by simp
next
  case (Cons e es)
  show ?case
  proof (cases "entryArguments split e")
    case (Inl err)
    then show ?thesis by simp
  next
    case (Inr args)
    then show ?thesis
      using Cons.IH [of "done @ [\<lparr>compiler = c, cwd = directory e,
                executable = (case args of [] \<Rightarrow> None | a # _ \<Rightarrow> Some a), cmd = args,
                env = environment\<rparr>]"]
            Cons.IH [of "[\<lparr>compiler = c, cwd = directory e,
                executable = (case args of [] \<Rightarrow> None | a # _ \<Rightarrow> Some a), cmd = args,
                env = environment\<rparr>]"]
      by (simp split: sum.splits)
  qed
qed

lemma captureEntries_cmd:
  assumes "captureEntries split c environment es [] = Inr caps"
  shows "length caps = length es \<and>
         (\<forall>i < length es. entryArguments split (es ! i) = Inr (cmd (caps ! i)))"
  using assms
proof (induction es arbitrary: caps)
  case Nil
  then show ?case by simp
next
  case (Cons e es)
  from Cons.prems obtain args where a: "entryArguments split e = Inr args"
    by (cases "entryArguments split e") simp_all
  let ?cap = "\<lparr>compiler = c, cwd = directory e,
                executable = (case args of [] \<Rightarrow> None | a # _ \<Rightarrow> Some a), cmd = args,
                env = environment\<rparr>"
  from Cons.prems a have "captureEntries split c environment es [?cap] = Inr caps" by simp
  then obtain rest where r: "captureEntries split c environment es [] = Inr rest"
    and caps: "caps = ?cap # rest"
    by (subst (asm) captureEntries_append) (auto split: sum.splits)
  from Cons.IH [OF r] have ih: "length rest = length es"
    "\<forall>i < length es. entryArguments split (es ! i) = Inr (cmd (rest ! i))" by simp_all
  show ?case
  proof (intro conjI allI impI)
    show "length caps = length (e # es)" using caps ih by simp
  next
    fix i assume "i < length (e # es)"
    then show "entryArguments split ((e # es) ! i) = Inr (cmd (caps ! i))"
      using a caps ih by (cases i) simp_all
  qed
qed

text \<open>
  C6: let the database file exist, the preparation (workspace folder, settings,
  environment, analyzer properties) succeed, and the dump file be missing or not newer than
  the database. If the database holds the single entry
  \<open>{"directory": "/p", "command": "gcc -c a.c"}\<close> and shell word splitting gives \<open>gcc\<close>, \<open>-c\<close>,
  \<open>a.c\<close> for the command, the conversion makes the directory and writes the dump
  \<open>{version: 0, captures: [c]}\<close> where \<open>c\<close> has executable \<open>gcc\<close>, cmd \<open>gcc -c a.c\<close> and cwd
  \<open>/p\<close>. In general, whenever the loop over the entries succeeds there is one capture per
  entry, in order; its \<open>cmd\<close> is the entry's \<open>arguments\<close> when the entry has them, and
  otherwise the entry has a command and \<open>cmd\<close> is what the splitter gives for it.
\<close>

theorem conversion_of_single_entry:
  "(existsSync h db
      \<and> prepareConversion Path h db = (updates, Inr (dumpFile, compilerName, environment))
      \<and> \<not> (existsSync h dumpFile \<and> mtime h dumpFile > mtime h db)
      \<and> readFile h db = Database [\<lparr>directory = Some ''/p'', command = Some ''gcc -c a.c'',
                                     arguments = None, entryFile = f\<rparr>]
      \<and> split ''gcc -c a.c'' = Inr [''gcc'', ''-c'', ''a.c'']
    \<longrightarrow> convertCompilationDB Path split h db =
          (updates @
           [DirectoryMade (dirname Path dumpFile),
            FileWritten dumpFile
              \<lparr>version = 0,
               captures = [\<lparr>compiler = compilerName, cwd = Some ''/p'', executable = Some ''gcc'',
                            cmd = [''gcc'', ''-c'', ''a.c''], env = environment\<rparr>]\<rparr>],
           None))
   \<and> (captureEntries split compilerName environment entries [] = Inr caps
        \<longrightarrow> length caps = length entries
          \<and> (\<forall>i < length entries.
                (\<forall>args. arguments (entries ! i) = Some args \<longrightarrow> cmd (caps ! i) = args)
                \<and> (arguments (entries ! i) = None \<longrightarrow>
                     (\<exists>line. command (entries ! i) = Some line
                        \<and> split line = Inr (cmd (caps ! i))))))"
proof (intro conjI impI)
  assume "existsSync h db
      \<and> prepareConversion Path h db = (updates, Inr (dumpFile, compilerName, environment))
      \<and> \<not> (existsSync h dumpFile \<and> mtime h dumpFile > mtime h db)
      \<and> readFile h db = Database [\<lparr>directory = Some ''/p'', command = Some ''gcc -c a.c'',
                                     arguments = None, entryFile = f\<rparr>]
      \<and> split ''gcc -c a.c'' = Inr [''gcc'', ''-c'', ''a.c'']"
  then show "convertCompilationDB Path split h db =
          (updates @
           [DirectoryMade (dirname Path dumpFile),
            FileWritten dumpFile
              \<lparr>version = 0,
               captures = [\<lparr>compiler = compilerName, cwd = Some ''/p'', executable = Some ''gcc'',
                            cmd = [''gcc'', ''-c'', ''a.c''], env = environment\<rparr>]\<rparr>],
           None)"
    by (auto simp: convertCompilationDB_def entryArguments_def)
next
  assume c: "captureEntries split compilerName environment entries [] = Inr caps"
  from captureEntries_cmd [OF c] show "length caps = length entries" by simp
next
  assume c: "captureEntries split compilerName environment entries [] = Inr caps"
  from captureEntries_cmd [OF c]
  have e: "\<forall>i < length entries. entryArguments split (entries ! i) = Inr (cmd (caps ! i))"
    by simp
  show "\<forall>i < length entries.
          (\<forall>args. arguments (entries ! i) = Some args \<longrightarrow> cmd (caps ! i) = args)
          \<and> (arguments (entries ! i) = None \<longrightarrow>
               (\<exists>line. command (entries ! i) = Some line \<and> split line = Inr (cmd (caps ! i))))"
  proof (intro allI impI)
    fix i assume "i < length entries"
    with e have "entryArguments split (entries ! i) = Inr (cmd (caps ! i))" by simp
    then show "(\<forall>args. arguments (entries ! i) = Some args \<longrightarrow> cmd (caps ! i) = args)
          \<and> (arguments (entries ! i) = None \<longrightarrow>
               (\<exists>line. command (entries ! i) = Some line \<and> split line = Inr (cmd (caps ! i))))"
      by (auto simp: entryArguments_def split: option.splits)
  qed
qed

theorem conversion_of_single_entry_witness:
  "existsSync exampleHost ''/w/compile_commands.json''
   \<and> \<not> existsSync exampleHost ''/w/cfamily-compilation-database/build-wrapper-dump.json''
   \<and> splitPlain ''gcc -c a.c'' = Inr [''gcc'', ''-c'', ''a.c'']
   \<and> convertCompilationDB (posixPath ''/w'') splitPlain exampleHost ''/w/compile_commands.json'' =
       ([ConfigurationUpdated
           [(''sonar.cfamily.build-wrapper-output'', ''/w/cfamily-compilation-database'')],
         DirectoryMade ''/w/cfamily-compilation-database'',
         FileWritten ''/w/cfamily-compilation-database/build-wrapper-dump.json''
           \<lparr>version = 0,
            captures = [\<lparr>compiler = ''clang'', cwd = Some ''/p'', executable = Some ''gcc'',
                         cmd = [''gcc'', ''-c'', ''a.c''], env = [''PATH=/usr/bin'']\<rparr>]\<rparr>],
        None)
   \<and> captureEntries splitPlain ''clang'' [''PATH=/usr/bin'']
         [\<lparr>directory = None, command = Some ''cc x.c'', arguments = Some [''clang'', ''x.c''],
           entryFile = None\<rparr>,
          \<lparr>directory = None, command = Some ''cc y.c'', arguments = None, entryFile = None\<rparr>] []
       = Inr [\<lparr>compiler = ''clang'', cwd = None, executable = Some ''clang'',
                cmd = [''clang'', ''x.c''], env = [''PATH=/usr/bin'']\<rparr>,
              \<lparr>compiler = ''clang'', cwd = None, executable = Some ''cc'',
                cmd = [''cc'', ''y.c''], env = [''PATH=/usr/bin'']\<rparr>]
   \<and> splitPlain ''cc y.c'' = Inr [''cc'', ''y.c'']"
proof -
  have e: "existsSync exampleHost ''/w/compile_commands.json''"
    by (simp add: exampleHost_def)
  have p: "prepareConversion (posixPath ''/w'') exampleHost ''/w/compile_commands.json'' =
             ([ConfigurationUpdated
                 [(''sonar.cfamily.build-wrapper-output'', ''/w/cfamily-compilation-database'')]],
              Inr (''/w/cfamily-compilation-database/build-wrapper-dump.json'', ''clang'',
                   [''PATH=/usr/bin'']))"
    by code_simp
  have x: "\<not> existsSync exampleHost ''/w/cfamily-compilation-database/build-wrapper-dump.json''"
    by (simp add: exampleHost_def)
  then have n: "\<not> (existsSync exampleHost ''/w/cfamily-compilation-database/build-wrapper-dump.json''
              \<and> mtime exampleHost ''/w/cfamily-compilation-database/build-wrapper-dump.json''
                  > mtime exampleHost ''/w/compile_commands.json'')"
    by simp
  have r: "readFile exampleHost ''/w/compile_commands.json'' =
             Database [\<lparr>directory = Some ''/p'', command = Some ''gcc -c a.c'',
                        arguments = None, entryFile = Some ''a.c''\<rparr>]"
    by (simp add: exampleHost_def)
  have s: "splitPlain ''gcc -c a.c'' = Inr [''gcc'', ''-c'', ''a.c'']" by code_simp
  have c: "captureEntries splitPlain ''clang'' [''PATH=/usr/bin'']
             [\<lparr>directory = None, command = Some ''cc x.c'', arguments = Some [''clang'', ''x.c''],
               entryFile = None\<rparr>,
              \<lparr>directory = None, command = Some ''cc y.c'', arguments = None,
               entryFile = None\<rparr>] [] =
           Inr [\<lparr>compiler = ''clang'', cwd = None, executable = Some ''clang'',
                 cmd = [''clang'', ''x.c''], env = [''PATH=/usr/bin'']\<rparr>,
                \<lparr>compiler = ''clang'', cwd = None, executable = Some ''cc'',
                 cmd = [''cc'', ''y.c''], env = [''PATH=/usr/bin'']\<rparr>]"
    by code_simp
  note main = conversion_of_single_entry
         [of exampleHost "''/w/compile_commands.json''" "posixPath ''/w''"
             "[ConfigurationUpdated
                 [(''sonar.cfamily.build-wrapper-output'', ''/w/cfamily-compilation-database'')]]"
             "''/w/cfamily-compilation-database/build-wrapper-dump.json''" "''clang''"
             "[''PATH=/usr/bin'']" "Some ''a.c''" splitPlain
             "[\<lparr>directory = None, command = Some ''cc x.c'', arguments = Some [''clang'', ''x.c''],
               entryFile = None\<rparr>,
              \<lparr>directory = None, command = Some ''cc y.c'', arguments = None,
               entryFile = None\<rparr>]"
             "[\<lparr>compiler = ''clang'', cwd = None, executable = Some ''clang'',
                 cmd = [''clang'', ''x.c''], env = [''PATH=/usr/bin'']\<rparr>,
                \<lparr>compiler = ''clang'', cwd = None, executable = Some ''cc'',
                 cmd = [''cc'', ''y.c''], env = [''PATH=/usr/bin'']\<rparr>]"]
  from main e p n r s
  have 1: "convertCompilationDB (posixPath ''/w'') splitPlain exampleHost ''/w/compile_commands.json'' =
       ([ConfigurationUpdated
           [(''sonar.cfamily.build-wrapper-output'', ''/w/cfamily-compilation-database'')],
         DirectoryMade ''/w/cfamily-compilation-database'',
         FileWritten ''/w/cfamily-compilation-database/build-wrapper-dump.json''
           \<lparr>version = 0,
            captures = [\<lparr>compiler = ''clang'', cwd = Some ''/p'', executable = Some ''gcc'',
                         cmd = [''gcc'', ''-c'', ''a.c''], env = [''PATH=/usr/bin'']\<rparr>]\<rparr>],
        None)"
    by (simp add: posixPath_def posixDirname_def isAbsolute_def)
  from main [THEN conjunct2, rule_format, OF c, THEN conjunct2, rule_format, of 1]
  have 2: "splitPlain ''cc y.c'' = Inr [''cc'', ''y.c'']"
    by simp
  from e x s 1 c 2 show ?thesis by (intro conjI)
qed

section \<open>Properties of the ignore check\<close>

text \<open>
  C8: the ignore check for a file of a workspace folder, run while the git extension is
  missing (\<open>getExtension('vscode.git')\<close> is undefined), ends in a TypeError: the promise
  rejects. \<open>exports\<close> is read from the undefined value before the \<open>try\<close> block is entered.
\<close>

theorem ignore_check_without_git_extension:
  "performIsIgnoredCheck exampleIgnoreHost ignoresEverything ''file:///w/a.c''
     = ([GetExtension], Inl TypeError)"
  by (simp add: performIsIgnoredCheck_def exampleIgnoreHost_def)

text \<open>
  C10: for a file URI (one that \<open>Uri.parse\<close> accepts) that belongs to no workspace folder,
  the ignore check resolves to false, and it has made no call to the git extension and has
  not run the check command.
\<close>

theorem ignore_check_outside_workspace:
  "parseUri h fileUri = Inr parsedFileUri \<and> getWorkspaceFolder h parsedFileUri = None
   \<longrightarrow> performIsIgnoredCheck h scmCheck fileUri = ([], Inr False)"
  by (simp add: performIsIgnoredCheck_def)

theorem ignore_check_outside_workspace_witness:
  "parseUri exampleIgnoreHost ''file:///elsewhere/a.c'' = Inr ''file:///elsewhere/a.c''
   \<and> getWorkspaceFolder exampleIgnoreHost ''file:///elsewhere/a.c'' = None
   \<and> performIsIgnoredCheck exampleIgnoreHost ignoresEverything ''file:///elsewhere/a.c''
       = ([], Inr False)"
  using ignore_check_outside_workspace
          [of exampleIgnoreHost "''file:///elsewhere/a.c''" "''file:///elsewhere/a.c''"
              ignoresEverything]
  by (simp add: exampleIgnoreHost_def)

end
